theory Spec2Isabelle
  imports Main "HOL-Library.Sublist" "HOL-Library.Word"
begin

unbundle bit_operations_syntax

section \<open>Strings, formatting and errors\<close>

text \<open>
  A Go string is a sequence of bytes, and so is a HOL \<^typ>\<open>string\<close>. A value of Go's
  \<^verbatim>\<open>error\<close> interface is modelled by what the program observes of it: the text
  returned by \<^verbatim>\<open>Error()\<close>, and whether its dynamic type is \<^verbatim>\<open>*ssh.ExitError\<close>
  (the only type the program tests for), in which case it also carries the remote exit
  status. \<^verbatim>\<open>nil\<close> is \<^term>\<open>None\<close>. An error built by \<^verbatim>\<open>errors.New\<close> or
  \<^verbatim>\<open>fmt.Errorf\<close> (also with \<^verbatim>\<open>%w\<close>) is an \<open>ErrorString\<close>: a wrapped
  \<^verbatim>\<open>*ssh.ExitError\<close> is no longer one for a type assertion.
\<close>

datatype error = ErrorString string | ExitError int string

fun Error_text :: "error \<Rightarrow> string" where
  "Error_text (ErrorString m) = m"
| "Error_text (ExitError st m) = m"

text \<open>Decimal formatting of an integer, as the verb \<^verbatim>\<open>%d\<close> prints it.\<close>

function itoa_nat :: "nat \<Rightarrow> string" where
  "itoa_nat n =
     (if n < 10 then [''0123456789'' ! n]
      else itoa_nat (n div 10) @ [''0123456789'' ! (n mod 10)])"
  by pat_completeness auto
termination
  by (relation "measure (\<lambda>n. n)") auto

definition Itoa :: "int \<Rightarrow> string" where
  "Itoa i = (if i < 0 then CHR ''-'' # itoa_nat (nat (- i)) else itoa_nat (nat i))"

text \<open>
  \<^verbatim>\<open>strings.TrimSpace\<close> removes leading and trailing white space as defined by Unicode.
  On a byte string these are the UTF-8 encodings of the code points for which
  \<^verbatim>\<open>unicode.IsSpace\<close> holds: the six ASCII ones, U+0085, U+00A0, U+1680,
  U+2000 to U+200A, U+2028, U+2029, U+202F, U+205F and U+3000.
\<close>

definition space_runes :: "string list" where
  "space_runes =
     [[CHR 0x09], [CHR 0x0A], [CHR 0x0B], [CHR 0x0C], [CHR 0x0D], [CHR 0x20],
      [CHR 0xC2, CHR 0x85], [CHR 0xC2, CHR 0xA0], [CHR 0xE1, CHR 0x9A, CHR 0x80],
      [CHR 0xE2, CHR 0x80, CHR 0x80], [CHR 0xE2, CHR 0x80, CHR 0x81],
      [CHR 0xE2, CHR 0x80, CHR 0x82], [CHR 0xE2, CHR 0x80, CHR 0x83],
      [CHR 0xE2, CHR 0x80, CHR 0x84], [CHR 0xE2, CHR 0x80, CHR 0x85],
      [CHR 0xE2, CHR 0x80, CHR 0x86], [CHR 0xE2, CHR 0x80, CHR 0x87],
      [CHR 0xE2, CHR 0x80, CHR 0x88], [CHR 0xE2, CHR 0x80, CHR 0x89],
      [CHR 0xE2, CHR 0x80, CHR 0x8A], [CHR 0xE2, CHR 0x80, CHR 0xA8],
      [CHR 0xE2, CHR 0x80, CHR 0xA9], [CHR 0xE2, CHR 0x80, CHR 0xAF],
      [CHR 0xE2, CHR 0x81, CHR 0x9F], [CHR 0xE3, CHR 0x80, CHR 0x80]]"

text \<open>Dropping, from the left, every leading occurrence of one of the given byte sequences.\<close>

function trim_left :: "string list \<Rightarrow> string \<Rightarrow> string" where
  "trim_left ws s =
     (case find (\<lambda>w. w \<noteq> [] \<and> prefix w s) ws of
        None \<Rightarrow> s
      | Some w \<Rightarrow> trim_left ws (drop (length w) s))"
  by pat_completeness auto
termination
proof (relation "measure (\<lambda>(ws, s). length s)")
  show "wf (measure (\<lambda>(ws, s). length s))" by simp
next
  fix ws :: "string list" and s w :: string
  assume "find (\<lambda>w. w \<noteq> [] \<and> prefix w s) ws = Some w"
  then have "w \<noteq> []" and "prefix w s"
    by (auto simp: find_Some_iff)
  then have "length (drop (length w) s) < length s"
    by (cases w) (auto simp: prefix_def)
  then show "((ws, drop (length w) s), (ws, s)) \<in> measure (\<lambda>(ws, s). length s)"
    by simp
qed

definition TrimSpace :: "string \<Rightarrow> string" where
  "TrimSpace s = rev (trim_left (map rev space_runes) (rev (trim_left space_runes s)))"

section \<open>The job model (pkg/jobs/types.go)\<close>

text \<open>
  \<^verbatim>\<open>type Status string\<close>: a status is any string; the four constants are the values
  the program itself writes. A status read from JSON can be any other string.
\<close>

type_synonym Status = string

definition StatusPending :: Status where "StatusPending = ''pending''"
definition StatusRunning :: Status where "StatusRunning = ''running''"
definition StatusFailed :: Status where "StatusFailed = ''failed''"
definition StatusSucceeded :: Status where "StatusSucceeded = ''succeeded''"

record CredentialBundle =
  Username :: string
  Password :: string

record JobDefinition =
  ID :: string
  TargetHost :: string
  TargetPort :: int
  TargetUser :: string
  Command :: string
  Arguments :: "string list"
  AllowTTY :: bool
  Checksum :: string
  Metadata :: "string \<rightharpoonup> string"
  Credentials :: CredentialBundle

text \<open>
  A \<^verbatim>\<open>time.Time\<close> is the number of nanoseconds since the zero time, so that the zero
  value of the type is \<open>0\<close>. The metadata field of a result is named \<open>ResultMetadata\<close>
  (the field \<^verbatim>\<open>Metadata\<close> of \<^verbatim>\<open>Result\<close>), since the job has a field of that name.
\<close>

type_synonym time = int

record Result =
  JobID :: string
  Status :: Status
  StartedAt :: time
  FinishedAt :: time
  ExitCode :: int
  Stdout :: string
  Stderr :: string
  Error :: string
  ResultMetadata :: "string \<rightharpoonup> string"

definition CredentialBundle_Validate :: "CredentialBundle \<Rightarrow> error option" where
  "CredentialBundle_Validate c =
     (if TrimSpace (Username c) = [] then Some (ErrorString ''username required'')
      else if TrimSpace (Password c) = [] then Some (ErrorString ''password required'')
      else None)"

definition JobDefinition_Validate :: "JobDefinition \<Rightarrow> error option" where
  "JobDefinition_Validate j =
     (if ID j = [] then Some (ErrorString ''job id cannot be empty'')
      else if TargetHost j = [] then Some (ErrorString (''job '' @ ID j @ '' missing target_host''))
      else if TargetUser j = [] then Some (ErrorString (''job '' @ ID j @ '' missing target_user''))
      else if Command j = [] then Some (ErrorString (''job '' @ ID j @ '' missing command''))
      else if Checksum j = [] then Some (ErrorString (''job '' @ ID j @ '' missing checksum''))
      else (case CredentialBundle_Validate (Credentials j) of
              Some err \<Rightarrow>
                Some (ErrorString (''job '' @ ID j @ '' credentials invalid: '' @ Error_text err))
            | None \<Rightarrow> None))"

section \<open>The controller's job store (pkg/controller)\<close>

text \<open>
  The store is a FIFO of job IDs and a table of records. Every operation runs under the
  store's mutex from its first access to its return, so each is one atomic step on the
  state: a function from the state before to the result and the state after. A
  \<^verbatim>\<open>*jobs.Result\<close> that may be nil is an \<^typ>\<open>Result option\<close>.
\<close>

record jobRecord =
  job :: JobDefinition
  status :: Status
  result :: "Result option"

record Store =
  queue :: "string list"
  records :: "string \<rightharpoonup> jobRecord"

definition NewStore :: Store where
  "NewStore = \<lparr>queue = [], records = Map.empty\<rparr>"

definition Enqueue :: "JobDefinition \<Rightarrow> Store \<Rightarrow> error option \<times> Store" where
  "Enqueue j s =
     (case JobDefinition_Validate j of
        Some err \<Rightarrow> (Some err, s)
      | None \<Rightarrow>
          (case records s (ID j) of
             Some rec \<Rightarrow> (Some (ErrorString (''job '' @ ID j @ '' already exists'')), s)
           | None \<Rightarrow>
               (None,
                s\<lparr>records := (records s)(ID j \<mapsto> \<lparr>job = j, status = StatusPending, result = None\<rparr>),
                  queue := queue s @ [ID j]\<rparr>)))"

text \<open>
  \<^verbatim>\<open>Next\<close> reads \<^verbatim>\<open>s.records[jobID]\<close> without testing for presence: for an ID with no
  record the pointer is nil and the assignment to \<^verbatim>\<open>rec.status\<close> panics. The panic is
  the value \<open>Inl NilDereference\<close>. Otherwise the result is the pair that Go returns (the job
  copy or nil, and the flag) with the state after.
\<close>

datatype panic = NilDereference

definition Next :: "Store \<Rightarrow> panic + ((JobDefinition option \<times> bool) \<times> Store)" where
  "Next s =
     (case queue s of
        [] \<Rightarrow> Inr ((None, False), s)
      | jobID # rest \<Rightarrow>
          (case records s jobID of
             None \<Rightarrow> Inl NilDereference
           | Some rec \<Rightarrow>
               Inr ((Some (job rec), True),
                    s\<lparr>queue := rest,
                      records := (records s)(jobID \<mapsto> rec\<lparr>status := StatusRunning\<rparr>)\<rparr>)))"

definition Complete :: "Result \<Rightarrow> Store \<Rightarrow> error option \<times> Store" where
  "Complete res s =
     (case records s (JobID res) of
        None \<Rightarrow> (Some (ErrorString (''job '' @ JobID res @ '' not found'')), s)
      | Some rec \<Rightarrow>
          (None,
           s\<lparr>records := (records s)(JobID res \<mapsto> rec\<lparr>status := Status res, result := Some res\<rparr>)\<rparr>))"

definition Lookup :: "string \<Rightarrow> Store \<Rightarrow> Status \<times> Result option \<times> bool" where
  "Lookup jobID s =
     (case records s jobID of
        None \<Rightarrow> ([], None, False)
      | Some rec \<Rightarrow>
          (case result rec of
             None \<Rightarrow> (status rec, None, True)
           | Some res \<Rightarrow> (status rec, Some res, True)))"

subsection \<open>Sequences of store operations\<close>

text \<open>
  A client of the store calls the four operations in some order. \<open>apply_op\<close> is the
  effect of one call on the state (a panic ends the run), \<open>run_ops\<close> the effect of a
  sequence of calls, first to last.
\<close>

datatype store_op = OpEnqueue JobDefinition | OpNext | OpComplete Result | OpLookup string

fun apply_op :: "store_op \<Rightarrow> Store \<Rightarrow> panic + Store" where
  "apply_op (OpEnqueue j) s = Inr (snd (Enqueue j s))"
| "apply_op OpNext s = (case Next s of Inl p \<Rightarrow> Inl p | Inr (r, s') \<Rightarrow> Inr s')"
| "apply_op (OpComplete res) s = Inr (snd (Complete res s))"
| "apply_op (OpLookup jobID) s = (case Lookup jobID s of (st, res, found) \<Rightarrow> Inr s)"

fun run_ops :: "store_op list \<Rightarrow> Store \<Rightarrow> panic + Store" where
  "run_ops [] s = Inr s"
| "run_ops (x # xs) s = (case apply_op x s of Inl p \<Rightarrow> Inl p | Inr s' \<Rightarrow> run_ops xs s')"

text \<open>
  The order on statuses that the life cycle describes: a status stays, or moves from
  pending to running, from running to a terminal status, or from one terminal status to
  a terminal status (a later result replacing an earlier one).
\<close>

definition is_terminal :: "Status \<Rightarrow> bool" where
  "is_terminal st = (st = StatusSucceeded \<or> st = StatusFailed)"

definition forward :: "Status \<Rightarrow> Status \<Rightarrow> bool" where
  "forward a b =
     (a = b \<or> (a = StatusPending \<and> b = StatusRunning) \<or> (a = StatusRunning \<and> is_terminal b)
      \<or> (is_terminal a \<and> is_terminal b))"

text \<open>
  What one step from \<open>s\<close> to \<open>s'\<close> does to the record of one job: a record is never
  removed, a new record starts as pending, and the status of an existing one moves forward.
\<close>

definition forward_at :: "string \<Rightarrow> Store \<Rightarrow> Store \<Rightarrow> bool" where
  "forward_at jobID s s' =
     (case records s jobID of
        None \<Rightarrow> (case records s' jobID of None \<Rightarrow> True | Some r' \<Rightarrow> status r' = StatusPending)
      | Some r \<Rightarrow> (case records s' jobID of None \<Rightarrow> False | Some r' \<Rightarrow> forward (status r) (status r')))"

text \<open>
  The discipline of a well-behaved reporter, which \<^verbatim>\<open>Complete\<close> does not check: a
  result carries a terminal status, and it is reported for a job that is unknown to the
  store or no longer pending (it has been handed out by \<^verbatim>\<open>Next\<close>).
\<close>

fun op_ok :: "Store \<Rightarrow> store_op \<Rightarrow> bool" where
  "op_ok s (OpComplete res) =
     (is_terminal (Status res) \<and>
      (case records s (JobID res) of None \<Rightarrow> True | Some rec \<Rightarrow> status rec \<noteq> StatusPending))"
| "op_ok s x = True"

fun disciplined :: "Store \<Rightarrow> store_op list \<Rightarrow> bool" where
  "disciplined s [] = True"
| "disciplined s (x # xs) =
     (op_ok s x \<and> (case apply_op x s of Inl p \<Rightarrow> True | Inr s' \<Rightarrow> disciplined s' xs))"

text \<open>The invariants of disciplined runs: queued IDs are distinct and pending, and every
  status in the table is one of the four constants.\<close>

definition queue_pending :: "Store \<Rightarrow> bool" where
  "queue_pending s =
     (distinct (queue s) \<and>
      list_all (\<lambda>x. case records s x of None \<Rightarrow> False | Some r \<Rightarrow> status r = StatusPending) (queue s))"

definition statuses_known :: "Store \<Rightarrow> bool" where
  "statuses_known s =
     (\<forall>k r. records s k = Some r \<longrightarrow>
        status r = StatusPending \<or> status r = StatusRunning \<or> is_terminal (status r))"

subsection \<open>Example jobs and results\<close>

definition job1 :: JobDefinition where
  "job1 = \<lparr>ID = ''j1'', TargetHost = ''h'', TargetPort = 0, TargetUser = ''u'',
            Command = ''echo hi'', Arguments = [], AllowTTY = False,
            Checksum = ''56a79f3b115448072387c2480044bfa2cf8f90e4f5fddd8c943b4e051b81f80b'',
            Metadata = Map.empty, Credentials = \<lparr>Username = ''u'', Password = ''p''\<rparr>\<rparr>"

definition result1 :: "Status \<Rightarrow> Result" where
  "result1 st = \<lparr>JobID = ''j1'', Status = st, StartedAt = 0, FinishedAt = 0, ExitCode = 0,
                  Stdout = ''hi'', Stderr = [], Error = [], ResultMetadata = Map.empty\<rparr>"

definition job1_no_host :: JobDefinition where
  "job1_no_host = job1\<lparr>TargetHost := []\<rparr>"

section \<open>SHA-256 and hexadecimal encoding\<close>

text \<open>
  The executor and the submitter compute \<^verbatim>\<open>hex.EncodeToString(sha256.Sum256(command))\<close>.
  SHA-256 (FIPS 180-4) is written out on 32-bit words: addition wraps, as it does in the
  standard library. The round constants are the first 32 bits of the fractional parts of
  the cube roots of the first 64 primes, the initial state those of the square roots of
  the first 8 primes.
\<close>

definition sha256_K :: "32 word list" where
  "sha256_K =
     [0x428A2F98, 0x71374491, 0xB5C0FBCF, 0xE9B5DBA5, 0x3956C25B, 0x59F111F1,
      0x923F82A4, 0xAB1C5ED5, 0xD807AA98, 0x12835B01, 0x243185BE, 0x550C7DC3,
      0x72BE5D74, 0x80DEB1FE, 0x9BDC06A7, 0xC19BF174, 0xE49B69C1, 0xEFBE4786,
      0x0FC19DC6, 0x240CA1CC, 0x2DE92C6F, 0x4A7484AA, 0x5CB0A9DC, 0x76F988DA,
      0x983E5152, 0xA831C66D, 0xB00327C8, 0xBF597FC7, 0xC6E00BF3, 0xD5A79147,
      0x06CA6351, 0x14292967, 0x27B70A85, 0x2E1B2138, 0x4D2C6DFC, 0x53380D13,
      0x650A7354, 0x766A0ABB, 0x81C2C92E, 0x92722C85, 0xA2BFE8A1, 0xA81A664B,
      0xC24B8B70, 0xC76C51A3, 0xD192E819, 0xD6990624, 0xF40E3585, 0x106AA070,
      0x19A4C116, 0x1E376C08, 0x2748774C, 0x34B0BCB5, 0x391C0CB3, 0x4ED8AA4A,
      0x5B9CCA4F, 0x682E6FF3, 0x748F82EE, 0x78A5636F, 0x84C87814, 0x8CC70208,
      0x90BEFFFA, 0xA4506CEB, 0xBEF9A3F7, 0xC67178F2]"

type_synonym sha256_state =
  "32 word \<times> 32 word \<times> 32 word \<times> 32 word \<times> 32 word \<times> 32 word \<times> 32 word \<times> 32 word"

definition sha256_init :: sha256_state where
  "sha256_init =
     (0x6A09E667, 0xBB67AE85, 0x3C6EF372, 0xA54FF53A, 0x510E527F, 0x9B05688C,
      0x1F83D9AB, 0x5BE0CD19)"

definition rotr :: "nat \<Rightarrow> 32 word \<Rightarrow> 32 word" where
  "rotr n x = drop_bit n x OR push_bit (32 - n) x"

definition big_sigma0 :: "32 word \<Rightarrow> 32 word" where
  "big_sigma0 x = rotr 2 x XOR rotr 13 x XOR rotr 22 x"

definition big_sigma1 :: "32 word \<Rightarrow> 32 word" where
  "big_sigma1 x = rotr 6 x XOR rotr 11 x XOR rotr 25 x"

definition small_sigma0 :: "32 word \<Rightarrow> 32 word" where
  "small_sigma0 x = rotr 7 x XOR rotr 18 x XOR drop_bit 3 x"

definition small_sigma1 :: "32 word \<Rightarrow> 32 word" where
  "small_sigma1 x = rotr 17 x XOR rotr 19 x XOR drop_bit 10 x"

definition sha_ch :: "32 word \<Rightarrow> 32 word \<Rightarrow> 32 word \<Rightarrow> 32 word" where
  "sha_ch x y z = (x AND y) XOR (NOT x AND z)"

definition sha_maj :: "32 word \<Rightarrow> 32 word \<Rightarrow> 32 word \<Rightarrow> 32 word" where
  "sha_maj x y z = (x AND y) XOR (x AND z) XOR (y AND z)"

text \<open>
  Padding: the byte \<open>0x80\<close>, zero bytes up to 56 modulo 64, and the length of the message
  in bits as eight bytes, most significant first.
\<close>

definition sha256_pad :: "8 word list \<Rightarrow> 8 word list" where
  "sha256_pad m =
     m @ [0x80] @ replicate ((119 - length m mod 64) mod 64) 0 @
     map (\<lambda>i. ucast (drop_bit i (word_of_nat (8 * length m) :: 64 word)))
       [56, 48, 40, 32, 24, 16, 8, 0]"

fun words_of_bytes :: "8 word list \<Rightarrow> 32 word list" where
  "words_of_bytes (a # b # c # d # rest) =
     (push_bit 24 (ucast a) OR push_bit 16 (ucast b) OR push_bit 8 (ucast c) OR ucast d)
       # words_of_bytes rest"
| "words_of_bytes rest = []"

text \<open>The message schedule: \<open>n\<close> more words after the ones given.\<close>

fun sha256_schedule :: "nat \<Rightarrow> 32 word list \<Rightarrow> 32 word list" where
  "sha256_schedule 0 w = w"
| "sha256_schedule (Suc n) w =
     (let t = length w
      in sha256_schedule n
           (w @ [small_sigma1 (w ! (t - 2)) + w ! (t - 7) + small_sigma0 (w ! (t - 15)) + w ! (t - 16)]))"

fun sha256_round :: "sha256_state \<Rightarrow> 32 word \<times> 32 word \<Rightarrow> sha256_state" where
  "sha256_round (a, b, c, d, e, f, g, h) (k, w) =
     (let t1 = h + big_sigma1 e + sha_ch e f g + k + w;
          t2 = big_sigma0 a + sha_maj a b c
      in (t1 + t2, a, b, c, d + t1, e, f, g))"

fun sha256_add :: "sha256_state \<Rightarrow> sha256_state \<Rightarrow> sha256_state" where
  "sha256_add (a, b, c, d, e, f, g, h) (a', b', c', d', e', f', g', h') =
     (a + a', b + b', c + c', d + d', e + e', f + f', g + g', h + h')"

definition sha256_compress :: "sha256_state \<Rightarrow> 8 word list \<Rightarrow> sha256_state" where
  "sha256_compress st block =
     sha256_add st (foldl sha256_round st (zip sha256_K (sha256_schedule 48 (words_of_bytes block))))"

fun sha256_blocks :: "nat \<Rightarrow> sha256_state \<Rightarrow> 8 word list \<Rightarrow> sha256_state" where
  "sha256_blocks 0 st bs = st"
| "sha256_blocks (Suc n) st bs = sha256_blocks n (sha256_compress st (take 64 bs)) (drop 64 bs)"

definition Sum256 :: "string \<Rightarrow> sha256_state" where
  "Sum256 m = (let p = sha256_pad (map of_char m) in sha256_blocks (length p div 64) sha256_init p)"

definition hex_digit :: "32 word \<Rightarrow> char" where
  "hex_digit w = ''0123456789abcdef'' ! unat (w AND 0xF)"

definition hex32 :: "32 word \<Rightarrow> string" where
  "hex32 w = map (\<lambda>i. hex_digit (drop_bit i w)) [28, 24, 20, 16, 12, 8, 4, 0]"

fun EncodeToString :: "sha256_state \<Rightarrow> string" where
  "EncodeToString (a, b, c, d, e, f, g, h) =
     hex32 a @ hex32 b @ hex32 c @ hex32 d @ hex32 e @ hex32 f @ hex32 g @ hex32 h"

text \<open>\<^verbatim>\<open>ensureChecksum\<close> of the submitter, and the same expression in \<^verbatim>\<open>validateJob\<close>.\<close>

definition ensureChecksum :: "string \<Rightarrow> string" where
  "ensureChecksum command = EncodeToString (Sum256 command)"

section \<open>The SSH executor (pkg/executor/ssh.go)\<close>

text \<open>
  The fields \<^verbatim>\<open>Username\<close> and \<^verbatim>\<open>Password\<close> of \<^verbatim>\<open>SSHCredentials\<close> are named
  \<open>SSHUsername\<close> and \<open>SSHPassword\<close> here, the credential bundle having fields of those
  names. \<^verbatim>\<open>AllowedCommands\<close>, a \<^verbatim>\<open>map[string]struct{}\<close>, is the set of its keys.
\<close>

record SSHCredentials =
  Address :: string
  SSHUsername :: string
  SSHPassword :: string
  Fingerprint :: string

record SSHExecutor =
  AllowedCommands :: "string set"
  DialTimeout :: int

text \<open>
  What lies outside the program is a parameter of the model. The \<open>ssh_peer\<close> says how
  the network and the remote host answer each request of one call of \<^verbatim>\<open>Execute\<close>: the
  dial, the fingerprint of the host key presented in the handshake, the authentication,
  the opening of a session, the PTY request, and which case of the final \<^verbatim>\<open>select\<close>
  fires (the context is done, or the command has returned) with the contents of the two
  output buffers at that moment.
\<close>

datatype ctx_error = Canceled | DeadlineExceeded

fun ctx_Err :: "ctx_error \<Rightarrow> error" where
  "ctx_Err Canceled = ErrorString ''context canceled''"
| "ctx_Err DeadlineExceeded = ErrorString ''context deadline exceeded''"

datatype run_outcome =
  CtxDone ctx_error string string
  | RunDone "error option" string string

record ssh_peer =
  dial_reply :: "error option"
  host_key :: string
  auth_reply :: "error option"
  session_reply :: "error option"
  pty_reply :: "error option"
  run_reply :: run_outcome

text \<open>
  The state that \<^verbatim>\<open>Execute\<close> reads and changes: the clock (\<open>clock k\<close> is what the
  \<open>k\<close>-th call of \<^verbatim>\<open>time.Now().UTC()\<close> returns, \<open>ticks\<close> the number of calls so far)
  and the log of the network operations performed, oldest first.
\<close>

datatype net_event =
  Dial string | Handshake string | NewSession | RequestPty | Run string
  | SessionClose | ClientClose

record exec_state =
  clock :: "nat \<Rightarrow> time"
  ticks :: nat
  events :: "net_event list"

definition Now :: "exec_state \<Rightarrow> time \<times> exec_state" where
  "Now w = (clock w (ticks w), w\<lparr>ticks := Suc (ticks w)\<rparr>)"

definition log_event :: "net_event \<Rightarrow> exec_state \<Rightarrow> exec_state" where
  "log_event ev w = w\<lparr>events := events w @ [ev]\<rparr>"

definition validateJob :: "SSHExecutor \<Rightarrow> JobDefinition \<Rightarrow> error option" where
  "validateJob e j =
     (case JobDefinition_Validate j of
        Some err \<Rightarrow> Some err
      | None \<Rightarrow>
          if AllowedCommands e \<noteq> {} \<and> Command j \<notin> AllowedCommands e
          then Some (ErrorString (''command '' @ Command j @ '' not allowed''))
          else if EncodeToString (Sum256 (Command j)) \<noteq> Checksum j
          then Some (ErrorString ''checksum mismatch'')
          else None)"

text \<open>
  The callback gets the host name and the key; of the key only its fingerprint
  (\<^verbatim>\<open>ssh.FingerprintSHA256\<close>) is used.
\<close>

definition makeHostKeyCallback :: "string \<Rightarrow> string \<Rightarrow> string \<Rightarrow> error option" where
  "makeHostKeyCallback expected hostname fingerprint =
     (if expected = [] then None
      else if fingerprint \<noteq> expected
      then Some (ErrorString (''host key mismatch for '' @ hostname @ '': got '' @ fingerprint
                               @ '' want '' @ expected))
      else None)"

text \<open>
  The library's handshake, \<^verbatim>\<open>ssh.NewClientConn\<close>: it calls the host key callback on the
  key the server presents and fails with the callback's error; if the key is accepted,
  authentication decides.
\<close>

definition NewClientConn :: "ssh_peer \<Rightarrow> string \<Rightarrow> (string \<Rightarrow> string \<Rightarrow> error option) \<Rightarrow> error option" where
  "NewClientConn peer addr callback =
     (case callback addr (host_key peer) of
        Some err \<Rightarrow> Some (ErrorString (''ssh: handshake failed: '' @ Error_text err))
      | None \<Rightarrow> auth_reply peer)"

text \<open>\<^verbatim>\<open>newClient\<close> returns the client or an error; of the client nothing but its presence is used.\<close>

definition newClient :: "SSHExecutor \<Rightarrow> ssh_peer \<Rightarrow> SSHCredentials \<Rightarrow> exec_state \<Rightarrow> error option \<times> exec_state" where
  "newClient e peer creds w =
     (if Address creds = [] \<or> SSHUsername creds = []
      then (Some (ErrorString ''missing SSH address or username''), w)
      else if SSHPassword creds = [] then (Some (ErrorString ''missing password''), w)
      else
        (let w1 = log_event (Dial (Address creds)) w
         in case dial_reply peer of
              Some err \<Rightarrow>
                (Some (ErrorString (''dial '' @ Address creds @ '': '' @ Error_text err)), w1)
            | None \<Rightarrow>
                (let w2 = log_event (Handshake (Address creds)) w1
                 in case NewClientConn peer (Address creds) (makeHostKeyCallback (Fingerprint creds)) of
                      Some err \<Rightarrow> (Some (ErrorString (''handshake: '' @ Error_text err)), w2)
                    | None \<Rightarrow> (None, w2))))"

definition statusFromError :: "error option \<Rightarrow> Status" where
  "statusFromError err = (case err of Some x \<Rightarrow> StatusFailed | None \<Rightarrow> StatusSucceeded)"

definition errorString :: "error option \<Rightarrow> string" where
  "errorString err = (case err of None \<Rightarrow> [] | Some x \<Rightarrow> Error_text x)"

definition buildResult ::
  "JobDefinition \<Rightarrow> time \<Rightarrow> string \<Rightarrow> string \<Rightarrow> error option \<Rightarrow> exec_state \<Rightarrow> Result \<times> exec_state" where
  "buildResult j started out errout runErr w =
     (let exitCode = (case runErr of
                        None \<Rightarrow> 0
                      | Some (ExitError st m) \<Rightarrow> st
                      | Some (ErrorString m) \<Rightarrow> - 1);
          (finished, w') = Now w
      in (\<lparr>JobID = ID j, Status = statusFromError runErr, StartedAt = started,
           FinishedAt = finished, ExitCode = exitCode, Stdout = out, Stderr = errout,
           Error = errorString runErr, ResultMetadata = Metadata j\<rparr>, w'))"

text \<open>The zero value \<^verbatim>\<open>jobs.Result{}\<close>.\<close>

definition Result_zero :: Result where
  "Result_zero = \<lparr>JobID = [], Status = [], StartedAt = 0, FinishedAt = 0, ExitCode = 0,
                   Stdout = [], Stderr = [], Error = [], ResultMetadata = Map.empty\<rparr>"

text \<open>
  \<^verbatim>\<open>Execute\<close> returns the result and the error. The deferred calls run after the return
  value is built: \<^verbatim>\<open>session.Close\<close>, then \<^verbatim>\<open>client.Close\<close>.
\<close>

definition fail_with :: "JobDefinition \<Rightarrow> time \<Rightarrow> error \<Rightarrow> exec_state \<Rightarrow> (Result \<times> error option) \<times> exec_state" where
  "fail_with j started err w =
     (case buildResult j started [] [] (Some err) w of (r, w') \<Rightarrow> ((r, Some err), w'))"

definition Execute ::
  "SSHExecutor \<Rightarrow> ssh_peer \<Rightarrow> JobDefinition \<Rightarrow> SSHCredentials \<Rightarrow> exec_state
     \<Rightarrow> (Result \<times> error option) \<times> exec_state" where
  "Execute e peer j creds w0 =
     (case Now w0 of (started, w1) \<Rightarrow>
      (case validateJob e j of
         Some err \<Rightarrow> fail_with j started err w1
       | None \<Rightarrow>
          (case newClient e peer creds w1 of
             (Some err, w2) \<Rightarrow> fail_with j started err w2
           | (None, w2) \<Rightarrow>
              (case session_reply peer of
                 Some err \<Rightarrow>
                   (case fail_with j started (ErrorString (''start session: '' @ Error_text err))
                           (log_event NewSession w2) of
                      (res, w3) \<Rightarrow> (res, log_event ClientClose w3))
               | None \<Rightarrow>
                   (let w3 = log_event NewSession w2;
                        w4 = (if AllowTTY j then log_event RequestPty w3 else w3)
                    in case (if AllowTTY j then pty_reply peer else None) of
                         Some err \<Rightarrow>
                           ((Result_zero, Some (ErrorString (''request pty: '' @ Error_text err))),
                            log_event ClientClose (log_event SessionClose w4))
                       | None \<Rightarrow>
                           (let w5 = log_event (Run (Command j)) w4
                            in case (case run_reply peer of
                                       CtxDone ce out errout \<Rightarrow>
                                         (buildResult j started out errout (Some (ctx_Err ce)) w5,
                                          Some (ctx_Err ce))
                                     | RunDone rerr out errout \<Rightarrow>
                                         (buildResult j started out errout rerr w5, rerr)) of
                                 ((r, w6), err) \<Rightarrow>
                                   ((r, err), log_event ClientClose (log_event SessionClose w6))))))))"

text \<open>
  The one path of \<^verbatim>\<open>Execute\<close> that returns without \<^verbatim>\<open>buildResult\<close>: validation,
  connection and session succeed, the job asks for a terminal, and the PTY request fails.
\<close>

definition pty_request_failed ::
  "SSHExecutor \<Rightarrow> ssh_peer \<Rightarrow> JobDefinition \<Rightarrow> SSHCredentials \<Rightarrow> exec_state \<Rightarrow> bool" where
  "pty_request_failed e peer j creds w =
     (validateJob e j = None \<and> fst (newClient e peer creds (snd (Now w))) = None
      \<and> session_reply peer = None \<and> AllowTTY j \<and> pty_reply peer \<noteq> None)"

subsection \<open>Example executor, peers and credentials\<close>

definition exec0 :: SSHExecutor where
  "exec0 = \<lparr>AllowedCommands = {}, DialTimeout = 10000000000\<rparr>"

definition creds1 :: SSHCredentials where
  "creds1 = \<lparr>Address = ''h:22'', SSHUsername = ''u'', SSHPassword = ''secret'', Fingerprint = []\<rparr>"

definition peer_ok :: ssh_peer where
  "peer_ok = \<lparr>dial_reply = None, host_key = ''SHA256:k'', auth_reply = None,
               session_reply = None, pty_reply = None, run_reply = RunDone None ''hi'' []\<rparr>"

definition peer_no_pty :: ssh_peer where
  "peer_no_pty = peer_ok\<lparr>pty_reply := Some (ErrorString ''ssh: pty-req failed'')\<rparr>"

definition state0 :: exec_state where
  "state0 = \<lparr>clock = (\<lambda>k. 1000 + int k), ticks = 0, events = []\<rparr>"

definition job1_tty :: JobDefinition where
  "job1_tty = job1\<lparr>AllowTTY := True\<rparr>"

definition job1_bad_sum :: JobDefinition where
  "job1_bad_sum = job1\<lparr>Checksum := ''deadbeef''\<rparr>"

section \<open>The HTTP long-poll transport (pkg/transport, HTTP variant)\<close>

text \<open>
  A \<^verbatim>\<open>time.Duration\<close> is a number of nanoseconds. The \<^verbatim>\<open>Client\<close> field is not
  modelled: the client is the environment below.
\<close>

type_synonym duration = int

record HTTPTransport =
  BaseURL :: string
  PollInterval :: duration

text \<open>
  The standard library is a parameter: whether \<^verbatim>\<open>http.NewRequest\<close> accepts a method and
  a URL, what \<^verbatim>\<open>json.Unmarshal\<close> makes of a body, and what \<^verbatim>\<open>json.Marshal\<close> makes of a
  result.
\<close>

record http_lib =
  NewRequest :: "string \<Rightarrow> string \<Rightarrow> error option"
  Unmarshal_job :: "string \<Rightarrow> error + JobDefinition"
  Marshal_result :: "Result \<Rightarrow> error + string"

text \<open>
  The outcome of sending one request: \<^verbatim>\<open>client.Do\<close> fails, or it answers and reading
  the body fails, or a status code and a body arrive.
\<close>

datatype http_reply = DoFailed error | ReadFailed error | Response int string

datatype http_request = GET string | POST string string

text \<open>
  The world of the transport: \<open>stop_closed k\<close> says whether the stop channel is closed
  when the \<open>k\<close>-th \<^verbatim>\<open>select\<close> runs, \<open>replies k\<close> is the outcome of the \<open>k\<close>-th request;
  \<open>polls\<close> counts the selects run, \<open>requests\<close> logs the requests sent and \<open>sleeps\<close> the
  durations slept, oldest first.
\<close>

record http_world =
  stop_closed :: "nat \<Rightarrow> bool"
  replies :: "nat \<Rightarrow> http_reply"
  polls :: nat
  requests :: "http_request list"
  sleeps :: "duration list"

definition polled :: "http_world \<Rightarrow> http_world" where
  "polled w = w\<lparr>polls := Suc (polls w)\<rparr>"

definition sent :: "http_request \<Rightarrow> http_world \<Rightarrow> http_world" where
  "sent rq w = w\<lparr>requests := requests w @ [rq]\<rparr>"

definition slept :: "duration \<Rightarrow> http_world \<Rightarrow> http_world" where
  "slept d w = w\<lparr>sleeps := sleeps w @ [d]\<rparr>"

definition next_reply :: "http_world \<Rightarrow> http_reply" where
  "next_reply w = replies w (length (requests w))"

definition sleepInterval :: "HTTPTransport \<Rightarrow> duration" where
  "sleepInterval t = (if PollInterval t \<le> 0 then 2 * 1000000000 else PollInterval t)"

text \<open>
  The polling loop of \<^verbatim>\<open>NextJob\<close>. It may run forever (the controller answers 204 or is
  unreachable each time and the stop channel stays open): not returning is \<open>None\<close>. A
  return is the triple of the job (or nil), the receipt and the error.
\<close>

type_synonym next_job_result = "JobDefinition option \<times> string \<times> error option"

partial_function (option) HTTP_poll ::
  "HTTPTransport \<Rightarrow> http_lib \<Rightarrow> http_world \<Rightarrow> (next_job_result \<times> http_world) option" where
  "HTTP_poll t lib w =
     (if stop_closed w (polls w)
      then Some ((None, [], Some (ErrorString ''polling stopped'')), polled w)
      else
        (case NewRequest lib ''GET'' (BaseURL t @ ''/v1/queue/next'') of
           Some err \<Rightarrow> Some ((None, [], Some err), polled w)
         | None \<Rightarrow>
             (case next_reply w of
                DoFailed err \<Rightarrow>
                  HTTP_poll t lib
                    (slept (sleepInterval t) (sent (GET (BaseURL t @ ''/v1/queue/next'')) (polled w)))
              | ReadFailed err \<Rightarrow>
                  Some ((None, [], Some err), sent (GET (BaseURL t @ ''/v1/queue/next'')) (polled w))
              | Response code body \<Rightarrow>
                  if code = 204
                  then HTTP_poll t lib
                         (slept (sleepInterval t) (sent (GET (BaseURL t @ ''/v1/queue/next'')) (polled w)))
                  else if code = 200
                  then
                    (case Unmarshal_job lib body of
                       Inl err \<Rightarrow>
                         Some ((None, [], Some err),
                               sent (GET (BaseURL t @ ''/v1/queue/next'')) (polled w))
                     | Inr j \<Rightarrow>
                         (case JobDefinition_Validate j of
                            Some err \<Rightarrow>
                              Some ((None, [], Some err),
                                    sent (GET (BaseURL t @ ''/v1/queue/next'')) (polled w))
                          | None \<Rightarrow>
                              Some ((Some j, ID j, None),
                                    sent (GET (BaseURL t @ ''/v1/queue/next'')) (polled w))))
                  else
                    Some ((None, [],
                           Some (ErrorString (''controller returned '' @ Itoa code @ '': ''
                                              @ TrimSpace body))),
                          sent (GET (BaseURL t @ ''/v1/queue/next'')) (polled w)))))"

declare HTTP_poll.simps [code]

definition HTTP_NextJob ::
  "HTTPTransport \<Rightarrow> http_lib \<Rightarrow> http_world \<Rightarrow> (next_job_result \<times> http_world) option" where
  "HTTP_NextJob t lib w =
     (if TrimSpace (BaseURL t) = []
      then Some ((None, [], Some (ErrorString ''controller base URL not configured'')), w)
      else HTTP_poll t lib w)"

definition HTTP_WriteResult ::
  "HTTPTransport \<Rightarrow> http_lib \<Rightarrow> string \<Rightarrow> Result \<Rightarrow> http_world \<Rightarrow> error option \<times> http_world" where
  "HTTP_WriteResult t lib jobID res w =
     (if TrimSpace jobID = []
      then (Some (ErrorString ''job id required for result submission''), w)
      else
        (case Marshal_result lib res of
           Inl err \<Rightarrow> (Some err, w)
         | Inr payload \<Rightarrow>
             (case NewRequest lib ''POST'' (BaseURL t @ ''/v1/jobs/'' @ jobID @ ''/results'') of
                Some err \<Rightarrow> (Some err, w)
              | None \<Rightarrow>
                  (case next_reply w of
                     DoFailed err \<Rightarrow>
                       (Some err, sent (POST (BaseURL t @ ''/v1/jobs/'' @ jobID @ ''/results'') payload) w)
                   | ReadFailed err \<Rightarrow>
                       (Some err, sent (POST (BaseURL t @ ''/v1/jobs/'' @ jobID @ ''/results'') payload) w)
                   | Response code body \<Rightarrow>
                       (if code \<noteq> 202
                        then Some (ErrorString (''controller rejected result ('' @ Itoa code @ ''): ''
                                                @ TrimSpace body))
                        else None,
                        sent (POST (BaseURL t @ ''/v1/jobs/'' @ jobID @ ''/results'') payload) w)))))"

subsection \<open>Example transport and controller\<close>

definition http1 :: HTTPTransport where
  "http1 = \<lparr>BaseURL = ''http://c:8080'', PollInterval = 0\<rparr>"

text \<open>The same transport with a poll interval of seven seconds.\<close>

definition http2 :: HTTPTransport where
  "http2 = \<lparr>BaseURL = ''http://c:8080'', PollInterval = 7000000000\<rparr>"

text \<open>A library whose decoder knows one body, that of the example job.\<close>

definition lib1 :: http_lib where
  "lib1 = \<lparr>NewRequest = (\<lambda>m u. None),
            Unmarshal_job = (\<lambda>b. if b = ''{job1}'' then Inr job1 else Inl (ErrorString ''unexpected end of JSON input'')),
            Marshal_result = (\<lambda>r. Inr ''{result}'')\<rparr>"

text \<open>A controller that answers the given replies in turn, and 204 ever after.\<close>

definition controller :: "http_reply list \<Rightarrow> http_world" where
  "controller rs =
     \<lparr>stop_closed = (\<lambda>k. False),
      replies = (\<lambda>k. if k < length rs then rs ! k else Response 204 []),
      polls = 0, requests = [], sleeps = []\<rparr>"

section \<open>The shared-directory transport (pkg/transport/filesystem.go)\<close>

text \<open>
  \<^verbatim>\<open>filepath.Ext\<close> scans the path from its end up to the last separator and returns the
  suffix that starts at the first dot it meets, or the empty string. \<open>ext_scan\<close> is that
  loop on the reversed path, with the characters passed so far. The separator is the
  slash.
\<close>

fun ext_scan :: "string \<Rightarrow> string \<Rightarrow> string" where
  "ext_scan [] acc = []"
| "ext_scan (c # cs) acc =
     (if c = CHR ''/'' then []
      else if c = CHR ''.'' then c # acc
      else ext_scan cs (c # acc))"

definition Ext :: "string \<Rightarrow> string" where
  "Ext path = ext_scan (rev path) []"

definition TrimSuffix :: "string \<Rightarrow> string \<Rightarrow> string" where
  "TrimSuffix s suf = (if suffix suf s then take (length s - length suf) s else s)"

record FilesystemTransport =
  InboxDir :: string
  InboxPollInterval :: duration

text \<open>
  The file system and the JSON library are parameters: \<open>walk root\<close> is the sequence of
  calls \<^verbatim>\<open>filepath.WalkDir\<close> makes to its function for that root (the path, whether the
  entry is a directory, and the error passed), \<open>ReadFile\<close> and \<open>WriteFile\<close> are the
  outcomes of reading and writing a path.
\<close>

type_synonym walk_entry = "string \<times> bool \<times> error option"

record fs_lib =
  walk :: "string \<Rightarrow> walk_entry list"
  ReadFile :: "string \<Rightarrow> error + string"
  WriteFile :: "string \<Rightarrow> string \<Rightarrow> error option"
  Unmarshal :: "string \<Rightarrow> error + JobDefinition"
  MarshalIndent :: "Result \<Rightarrow> error + string"

text \<open>
  The function that \<^verbatim>\<open>scanInbox\<close> passes to \<^verbatim>\<open>WalkDir\<close>: what it returns (nil, the
  error it was passed, or \<^verbatim>\<open>fs.SkipAll\<close>) and the value of \<^verbatim>\<open>selected\<close> after the call.
\<close>

datatype walk_ctl = Continue | SkipAll | Abort error

definition is_job_file :: "string \<Rightarrow> bool" where
  "is_job_file path = (Ext path = ''.json'' \<and> Ext (TrimSuffix path (Ext path)) = ''.job'')"

definition visit :: "walk_entry \<Rightarrow> string \<Rightarrow> walk_ctl \<times> string" where
  "visit entry selected =
     (case entry of (path, isDir, walkErr) \<Rightarrow>
        (case walkErr of
           Some err \<Rightarrow> (Abort err, selected)
         | None \<Rightarrow>
             if isDir then (Continue, selected)
             else if Ext path \<noteq> ''.json'' then (Continue, selected)
             else if Ext (TrimSuffix path (Ext path)) \<noteq> ''.job'' then (Continue, selected)
             else (SkipAll, path)))"

text \<open>
  \<^verbatim>\<open>WalkDir\<close> calls the function on each entry in turn, stops with nil at
  \<^verbatim>\<open>fs.SkipAll\<close> and with the error at any other error.
\<close>

fun WalkDir :: "walk_entry list \<Rightarrow> string \<Rightarrow> error option \<times> string" where
  "WalkDir [] selected = (None, selected)"
| "WalkDir (entry # rest) selected =
     (case visit entry selected of
        (Continue, selected') \<Rightarrow> WalkDir rest selected'
      | (SkipAll, selected') \<Rightarrow> (None, selected')
      | (Abort err, selected') \<Rightarrow> (Some err, selected'))"

definition scanInbox :: "FilesystemTransport \<Rightarrow> fs_lib \<Rightarrow> string \<times> JobDefinition option \<times> error option" where
  "scanInbox t lib =
     (case WalkDir (walk lib (InboxDir t)) [] of
        (err, selected) \<Rightarrow>
          if err \<noteq> None \<or> selected = [] then ([], None, err)
          else
            (case ReadFile lib selected of
               Inl rerr \<Rightarrow> ([], None, Some rerr)
             | Inr fileData \<Rightarrow>
                 (case Unmarshal lib fileData of
                    Inl uerr \<Rightarrow> ([], None, Some uerr)
                  | Inr j \<Rightarrow>
                      (case JobDefinition_Validate j of
                         Some verr \<Rightarrow> ([], None, Some verr)
                       | None \<Rightarrow> (selected, Some j, None)))))"

text \<open>
  \<^verbatim>\<open>WriteResult\<close> returns the error, and the model also returns the write it asked for
  (the path and the payload), if it got that far.
\<close>

definition FS_WriteResult ::
  "FilesystemTransport \<Rightarrow> fs_lib \<Rightarrow> string \<Rightarrow> Result \<Rightarrow> error option \<times> (string \<times> string) option" where
  "FS_WriteResult t lib jobPath res =
     (case MarshalIndent lib res of
        Inl err \<Rightarrow> (Some err, None)
      | Inr payload \<Rightarrow>
          (WriteFile lib (jobPath @ ''.result.json'') payload,
           Some (jobPath @ ''.result.json'', payload)))"

subsection \<open>Example inbox\<close>

definition inbox1 :: fs_lib where
  "inbox1 =
     \<lparr>walk = (\<lambda>root. [(''/in'', True, None),
                      (''/in/a.job.json.result.json'', False, None),
                      (''/in/b.job.json'', False, None)]),
      ReadFile = (\<lambda>p. if p = ''/in/b.job.json'' then Inr ''{job1}'' else Inl (ErrorString ''no such file'')),
      WriteFile = (\<lambda>p d. None),
      Unmarshal = (\<lambda>b. if b = ''{job1}'' then Inr job1 else Inl (ErrorString ''unexpected end of JSON input'')),
      MarshalIndent = (\<lambda>r. Inr ''{result}'')\<rparr>"

definition fs1 :: FilesystemTransport where
  "fs1 = \<lparr>InboxDir = ''/in'', InboxPollInterval = 5000000000\<rparr>"

section \<open>Properties of the job store\<close>

subsection \<open>Evaluation of the examples\<close>


lemma job1_valid: "JobDefinition_Validate job1 = None"
  by (simp add: JobDefinition_Validate_def CredentialBundle_Validate_def job1_def TrimSpace_def space_runes_def)


lemma job1_ID: "ID job1 = ''j1''" "ID job1_no_host = ''j1''"
  by (simp_all add: job1_def job1_no_host_def)

lemma job1_no_host_invalid:
  "JobDefinition_Validate job1_no_host = Some (ErrorString ''job j1 missing target_host'')"
  by (simp add: job1_no_host_def JobDefinition_Validate_def job1_def)

lemma inv_NewStore: "queue_pending NewStore \<and> statuses_known NewStore"
  by (simp add: queue_pending_def statuses_known_def NewStore_def)

lemma queue_pending_no_panic:
  assumes "queue_pending s"
  shows "\<exists>s'. apply_op x s = Inr s'"
proof (cases x)
  case OpNext
  show ?thesis
  proof (cases "queue s")
    case Nil
    with OpNext show ?thesis by (simp add: Next_def)
  next
    case (Cons a rest)
    with assms obtain r where "records s a = Some r"
      by (auto simp: queue_pending_def split: option.splits)
    with Cons OpNext show ?thesis by (simp add: Next_def)
  qed
qed (auto simp: Lookup_def split: option.splits)

text \<open>The table after one operation: unchanged, or changed at one key.\<close>

lemma apply_op_records:
  assumes inv: "queue_pending s" and ok: "op_ok s x" and step: "apply_op x s = Inr s'"
  shows "(records s' = records s \<and> (queue s' = queue s \<or> (\<exists>a. queue s = a # queue s')))
       \<or> (\<exists>j. x = OpEnqueue j \<and> records s (ID j) = None \<and> queue s' = queue s @ [ID j]
              \<and> records s' = (records s)(ID j \<mapsto> \<lparr>job = j, status = StatusPending, result = None\<rparr>))
       \<or> (\<exists>a r. x = OpNext \<and> queue s = a # queue s' \<and> records s a = Some r \<and> status r = StatusPending
              \<and> records s' = (records s)(a \<mapsto> r\<lparr>status := StatusRunning\<rparr>))
       \<or> (\<exists>res r. x = OpComplete res \<and> queue s' = queue s \<and> records s (JobID res) = Some r
              \<and> status r \<noteq> StatusPending \<and> is_terminal (Status res)
              \<and> records s' = (records s)(JobID res \<mapsto> r\<lparr>status := Status res, result := Some res\<rparr>))"
proof (cases x)
  case (OpEnqueue j)
  with step show ?thesis
    by (auto simp: Enqueue_def split: option.splits)
next
  case OpNext
  show ?thesis
  proof (cases "queue s")
    case Nil
    with OpNext step show ?thesis by (auto simp: Next_def)
  next
    case (Cons a rest)
    with inv obtain r where r: "records s a = Some r" "status r = StatusPending"
      by (auto simp: queue_pending_def split: option.splits)
    with Cons OpNext step show ?thesis
      by (auto simp: Next_def)
  qed
next
  case (OpComplete res)
  with step ok show ?thesis
    by (auto simp: Complete_def split: option.splits)
next
  case (OpLookup jobID)
  with step show ?thesis by (auto split: prod.splits)
qed

lemma inv_step:
  assumes inv: "queue_pending s" "statuses_known s" and ok: "op_ok s x" and step: "apply_op x s = Inr s'"
  shows "queue_pending s' \<and> statuses_known s'"
  using apply_op_records [OF inv(1) ok step]
proof (elim disjE exE conjE)
  assume "records s' = records s" "queue s' = queue s"
  with inv show ?thesis by (simp add: queue_pending_def statuses_known_def)
next
  fix a assume "records s' = records s" "queue s = a # queue s'"
  with inv show ?thesis by (auto simp: queue_pending_def statuses_known_def)
next
  fix j
  assume a: "records s (ID j) = None" "queue s' = queue s @ [ID j]"
    "records s' = (records s)(ID j \<mapsto> \<lparr>job = j, status = StatusPending, result = None\<rparr>)"
  from inv a(1) have "ID j \<notin> set (queue s)"
    by (auto simp: queue_pending_def list_all_iff split: option.splits)
  with inv a show ?thesis
    by (auto simp: queue_pending_def statuses_known_def list_all_iff split: option.splits)
next
  fix a r
  assume a: "queue s = a # queue s'" "records s a = Some r"
    "records s' = (records s)(a \<mapsto> r\<lparr>status := StatusRunning\<rparr>)"
  with inv show ?thesis
    by (auto simp: queue_pending_def statuses_known_def list_all_iff split: option.splits)
next
  fix res r
  assume a: "queue s' = queue s" "records s (JobID res) = Some r" "status r \<noteq> StatusPending"
    "is_terminal (Status res)"
    "records s' = (records s)(JobID res \<mapsto> r\<lparr>status := Status res, result := Some res\<rparr>)"
  from inv a have "JobID res \<notin> set (queue s)"
    by (auto simp: queue_pending_def list_all_iff)
  with inv a show ?thesis
    by (auto simp: queue_pending_def statuses_known_def list_all_iff split: option.splits)
qed

lemma disciplined_run:
  "queue_pending s \<Longrightarrow> statuses_known s \<Longrightarrow> disciplined s (xs @ [x]) \<Longrightarrow>
     \<exists>s1. run_ops xs s = Inr s1 \<and> queue_pending s1 \<and> statuses_known s1 \<and> op_ok s1 x"
proof (induction xs arbitrary: s)
  case Nil
  then show ?case by simp
next
  case (Cons y ys)
  from queue_pending_no_panic [OF Cons.prems(1)] obtain s' where s': "apply_op y s = Inr s'"
    by blast
  with Cons.prems have ok: "op_ok s y" and d: "disciplined s' (ys @ [x])"
    by simp_all
  from inv_step [OF Cons.prems(1,2) ok s'] have "queue_pending s'" "statuses_known s'"
    by simp_all
  from Cons.IH [OF this d] s' show ?case
    by simp
qed

lemma forward_at_same: "records s' = records s \<Longrightarrow> forward_at jobID s s'"
  by (simp add: forward_at_def forward_def split: option.splits)

lemma forward_at_update:
  assumes "records s' = (records s)(k \<mapsto> r')"
    and "case records s k of None \<Rightarrow> status r' = StatusPending | Some r \<Rightarrow> forward (status r) (status r')"
  shows "forward_at jobID s s'"
proof (cases "jobID = k")
  case True
  with assms show ?thesis by (simp add: forward_at_def split: option.splits)
next
  case False
  with assms(1) show ?thesis by (simp add: forward_at_def forward_def split: option.splits)
qed

lemma forward_step:
  assumes inv: "queue_pending s" "statuses_known s" and ok: "op_ok s x" and step: "apply_op x s = Inr s'"
  shows "forward_at jobID s s'"
  using apply_op_records [OF inv(1) ok step]
proof (elim disjE exE conjE)
  fix res r
  assume a: "records s (JobID res) = Some r" "status r \<noteq> StatusPending" "is_terminal (Status res)"
    and upd: "records s' = (records s)(JobID res \<mapsto> r\<lparr>status := Status res, result := Some res\<rparr>)"
  from inv(2) a(1) have "status r = StatusPending \<or> status r = StatusRunning \<or> is_terminal (status r)"
    by (auto simp: statuses_known_def)
  with a have "forward (status r) (Status res)"
    by (auto simp: forward_def)
  with a(1) show ?thesis
    by (intro forward_at_update [OF upd]) simp
next
  fix j
  assume "records s (ID j) = None"
    and upd: "records s' = (records s)(ID j \<mapsto> \<lparr>job = j, status = StatusPending, result = None\<rparr>)"
  then show ?thesis
    by (intro forward_at_update [OF upd]) simp
next
  fix a r
  assume "records s a = Some r" "status r = StatusPending"
    and upd: "records s' = (records s)(a \<mapsto> r\<lparr>status := StatusRunning\<rparr>)"
  then show ?thesis
    by (intro forward_at_update [OF upd]) (simp add: forward_def)
qed (simp_all add: forward_at_same)

text \<open>
  Claim C3, as amended. \<^verbatim>\<open>Complete\<close> writes \<^verbatim>\<open>result.Status\<close> into the record whatever
  the record's status is and whatever the new status is, so the life cycle is not kept on
  every sequence of operations. It is kept on the disciplined ones: in a sequence of
  operations on a new store in which every \<^verbatim>\<open>Complete\<close> carries a terminal status and names
  a job that is unknown or no longer pending, no operation panics, no record is removed, a
  record is created as pending, and each operation leaves the status of each record
  where it is or moves it one step forward (pending to running, running to terminal,
  terminal to terminal).
\<close>

theorem status_moves_forward:
  assumes "disciplined NewStore (xs @ [x])"
  shows "\<exists>s s'. run_ops xs NewStore = Inr s \<and> apply_op x s = Inr s' \<and> forward_at jobID s s'"
proof -
  from disciplined_run [OF _ _ assms] inv_NewStore
  obtain s where s: "run_ops xs NewStore = Inr s" "queue_pending s" "statuses_known s" "op_ok s x"
    by blast
  from queue_pending_no_panic [OF s(2)] obtain s' where s': "apply_op x s = Inr s'"
    by blast
  from forward_step [OF s(2,3,4) s'] s(1) s' show ?thesis
    by blast
qed


lemmas store_eval =
  Enqueue_def Next_def Complete_def Lookup_def NewStore_def job1_valid
  job1_ID job1_no_host_invalid
  result1_def StatusPending_def StatusRunning_def StatusSucceeded_def StatusFailed_def is_terminal_def

theorem status_moves_forward_witness:
  "disciplined NewStore ([OpEnqueue job1, OpNext] @ [OpComplete (result1 StatusSucceeded)])
   \<and> (\<exists>s s'. run_ops [OpEnqueue job1, OpNext] NewStore = Inr s
          \<and> apply_op (OpComplete (result1 StatusSucceeded)) s = Inr s'
          \<and> forward_at ''j1'' s s')"
proof -
  have d: "disciplined NewStore ([OpEnqueue job1, OpNext] @ [OpComplete (result1 StatusSucceeded)])"
    by (simp add: store_eval)
  from status_moves_forward [OF d] d show ?thesis by blast
qed

text \<open>
  Claim C3 as stated fails: a job that was enqueued and never handed out becomes
  succeeded by one \<^verbatim>\<open>Complete\<close>; a running job is set back to pending by a
  \<^verbatim>\<open>Complete\<close> whose result says pending; and a job completed while still queued is
  set from failed to running by the next \<^verbatim>\<open>Next\<close>.
\<close>

theorem status_overwritten_counterexample:
  "run_ops [OpEnqueue job1] NewStore =
     Inr \<lparr>queue = [''j1''],
          records = [''j1'' \<mapsto> \<lparr>job = job1, status = StatusPending, result = None\<rparr>]\<rparr>
   \<and> run_ops [OpEnqueue job1, OpComplete (result1 StatusSucceeded)] NewStore =
     Inr \<lparr>queue = [''j1''],
          records = [''j1'' \<mapsto> \<lparr>job = job1, status = StatusSucceeded,
                                  result = Some (result1 StatusSucceeded)\<rparr>]\<rparr>
   \<and> run_ops [OpEnqueue job1, OpNext, OpComplete (result1 StatusPending)] NewStore =
     Inr \<lparr>queue = [],
          records = [''j1'' \<mapsto> \<lparr>job = job1, status = StatusPending,
                                  result = Some (result1 StatusPending)\<rparr>]\<rparr>
   \<and> run_ops [OpEnqueue job1, OpComplete (result1 StatusFailed), OpNext] NewStore =
     Inr \<lparr>queue = [],
          records = [''j1'' \<mapsto> \<lparr>job = job1, status = StatusRunning,
                                  result = Some (result1 StatusFailed)\<rparr>]\<rparr>"
  by (simp add: store_eval)


text \<open>
  Claim C5 as stated fails for a job that is invalid and whose ID is present: validation
  comes first, so the error is the validation error, not the duplicate-job error.
\<close>

theorem enqueue_invalid_duplicate_counterexample:
  "records (snd (Enqueue job1 NewStore)) (ID job1_no_host) \<noteq> None
   \<and> Enqueue job1_no_host (snd (Enqueue job1 NewStore)) =
       (Some (ErrorString ''job j1 missing target_host''), snd (Enqueue job1 NewStore))
   \<and> ErrorString ''job j1 missing target_host'' \<noteq> ErrorString (''job '' @ ID job1_no_host @ '' already exists'')"
  by (simp add: store_eval)

text \<open>
  Claim C5, as amended. \<^verbatim>\<open>Enqueue\<close> of a valid job whose ID is already present fails
  with the duplicate-job error, and \<^verbatim>\<open>Enqueue\<close> of an invalid job (whether its ID is
  present or not) fails with the validation error; in both cases the store after the call
  is the store before it: the queue and every record, with its job, status and result.
\<close>

theorem enqueue_failure_no_effect:
  "(JobDefinition_Validate j = None \<and> records s (ID j) \<noteq> None \<longrightarrow>
      Enqueue j s = (Some (ErrorString (''job '' @ ID j @ '' already exists'')), s))
   \<and> (\<forall>err. JobDefinition_Validate j = Some err \<longrightarrow> Enqueue j s = (Some err, s))"
  by (auto simp: Enqueue_def)

theorem enqueue_failure_no_effect_witness:
  "JobDefinition_Validate job1 = None \<and> records (snd (Enqueue job1 NewStore)) (ID job1) \<noteq> None
   \<and> Enqueue job1 (snd (Enqueue job1 NewStore)) =
       (Some (ErrorString (''job '' @ ID job1 @ '' already exists'')), snd (Enqueue job1 NewStore))
   \<and> JobDefinition_Validate job1_no_host = Some (ErrorString ''job j1 missing target_host'')
   \<and> Enqueue job1_no_host NewStore = (Some (ErrorString ''job j1 missing target_host''), NewStore)"
proof -
  have a: "JobDefinition_Validate job1 = None" by (rule job1_valid)
  have b: "records (snd (Enqueue job1 NewStore)) (ID job1) \<noteq> None"
    by (simp add: store_eval)
  have c: "JobDefinition_Validate job1_no_host = Some (ErrorString ''job j1 missing target_host'')"
    by (rule job1_no_host_invalid)
  from enqueue_failure_no_effect [of job1 "snd (Enqueue job1 NewStore)"] a b
  have "Enqueue job1 (snd (Enqueue job1 NewStore)) =
       (Some (ErrorString (''job '' @ ID job1 @ '' already exists'')), snd (Enqueue job1 NewStore))"
    by blast
  moreover from enqueue_failure_no_effect [of job1_no_host NewStore] c
  have "Enqueue job1_no_host NewStore = (Some (ErrorString ''job j1 missing target_host''), NewStore)"
    by blast
  ultimately show ?thesis using a b c by blast
qed

text \<open>
  Claim C2. For a valid job \<open>j\<close> and a store with an empty queue and no record for
  \<open>ID j\<close>: \<^verbatim>\<open>Enqueue\<close> succeeds, the following \<^verbatim>\<open>Next\<close> returns \<open>j\<close> itself with the
  flag true and leaves the record of \<open>j\<close> running, and a second \<^verbatim>\<open>Next\<close> returns
  nil and false, leaving the store as it is.
\<close>

theorem enqueue_next_once:
  assumes valid: "JobDefinition_Validate j = None"
    and fresh: "records s (ID j) = None"
    and empty: "queue s = []"
  shows "\<exists>s1 s2. Enqueue j s = (None, s1)
           \<and> Next s1 = Inr ((Some j, True), s2)
           \<and> records s2 (ID j) = Some \<lparr>job = j, status = StatusRunning, result = None\<rparr>
           \<and> Next s2 = Inr ((None, False), s2)"
  using assms by (simp add: Enqueue_def Next_def)

theorem enqueue_next_once_witness:
  "JobDefinition_Validate job1 = None \<and> records NewStore (ID job1) = None \<and> queue NewStore = []
   \<and> (\<exists>s1 s2. Enqueue job1 NewStore = (None, s1)
           \<and> Next s1 = Inr ((Some job1, True), s2)
           \<and> records s2 (ID job1) = Some \<lparr>job = job1, status = StatusRunning, result = None\<rparr>
           \<and> Next s2 = Inr ((None, False), s2))"
proof -
  have a: "JobDefinition_Validate job1 = None" by (rule job1_valid)
  have b: "records NewStore (ID job1) = None" by (simp add: NewStore_def)
  have c: "queue NewStore = []" by (simp add: NewStore_def)
  from enqueue_next_once [OF a b c] a b c show ?thesis by blast
qed

text \<open>
  Claim C6. \<^verbatim>\<open>Complete\<close> returns an error exactly when the result's job ID has no
  record; the error is then the unknown-job error, the store is unchanged and
  \<^verbatim>\<open>Lookup\<close> of that ID still reports not found. When the record exists, \<^verbatim>\<open>Complete\<close>
  sets its status to the result's status and stores the result, which \<^verbatim>\<open>Lookup\<close> then
  returns; a later \<^verbatim>\<open>Complete\<close> for the same ID succeeds and replaces both.
\<close>

theorem complete_unknown_or_overwrite:
  "(fst (Complete res s) \<noteq> None \<longleftrightarrow> records s (JobID res) = None)
   \<and> (records s (JobID res) = None \<longrightarrow>
        Complete res s = (Some (ErrorString (''job '' @ JobID res @ '' not found'')), s)
        \<and> Lookup (JobID res) (snd (Complete res s)) = ([], None, False))
   \<and> (\<forall>rec. records s (JobID res) = Some rec \<longrightarrow>
        Complete res s =
          (None, s\<lparr>records := (records s)(JobID res \<mapsto> rec\<lparr>status := Status res, result := Some res\<rparr>)\<rparr>)
        \<and> Lookup (JobID res) (snd (Complete res s)) = (Status res, Some res, True)
        \<and> (\<forall>res2. JobID res2 = JobID res \<longrightarrow>
              fst (Complete res2 (snd (Complete res s))) = None
              \<and> Lookup (JobID res) (snd (Complete res2 (snd (Complete res s)))) =
                  (Status res2, Some res2, True)))"
  by (auto simp: Complete_def Lookup_def split: option.splits)

theorem complete_unknown_or_overwrite_witness:
  "records NewStore (JobID (result1 StatusFailed)) = None
   \<and> Complete (result1 StatusFailed) NewStore = (Some (ErrorString ''job j1 not found''), NewStore)
   \<and> Lookup ''j1'' (snd (Complete (result1 StatusFailed) NewStore)) = ([], None, False)
   \<and> records (snd (Enqueue job1 NewStore)) (JobID (result1 StatusFailed))
       = Some \<lparr>job = job1, status = StatusPending, result = None\<rparr>
   \<and> Lookup ''j1'' (snd (Complete (result1 StatusFailed) (snd (Enqueue job1 NewStore))))
       = (StatusFailed, Some (result1 StatusFailed), True)
   \<and> Lookup ''j1'' (snd (Complete (result1 StatusSucceeded)
          (snd (Complete (result1 StatusFailed) (snd (Enqueue job1 NewStore))))))
       = (StatusSucceeded, Some (result1 StatusSucceeded), True)"
proof -
  have a: "records NewStore (JobID (result1 StatusFailed)) = None"
    by (simp add: NewStore_def)
  have b: "records (snd (Enqueue job1 NewStore)) (JobID (result1 StatusFailed))
       = Some \<lparr>job = job1, status = StatusPending, result = None\<rparr>"
    by (simp add: Enqueue_def NewStore_def job1_valid job1_ID result1_def)
  have c: "JobID (result1 StatusSucceeded) = JobID (result1 StatusFailed)"
    "JobID (result1 StatusFailed) = ''j1''" "Status (result1 StatusFailed) = StatusFailed"
    "Status (result1 StatusSucceeded) = StatusSucceeded"
    by (simp_all add: result1_def)
  from complete_unknown_or_overwrite [of "result1 StatusFailed" NewStore] a c
  have "Complete (result1 StatusFailed) NewStore = (Some (ErrorString ''job j1 not found''), NewStore)
    \<and> Lookup ''j1'' (snd (Complete (result1 StatusFailed) NewStore)) = ([], None, False)"
    by (metis (no_types, lifting) append_Cons append_Nil)
  moreover
  from complete_unknown_or_overwrite [of "result1 StatusFailed" "snd (Enqueue job1 NewStore)"] b c
  have "Lookup ''j1'' (snd (Complete (result1 StatusFailed) (snd (Enqueue job1 NewStore))))
       = (StatusFailed, Some (result1 StatusFailed), True)
   \<and> Lookup ''j1'' (snd (Complete (result1 StatusSucceeded)
          (snd (Complete (result1 StatusFailed) (snd (Enqueue job1 NewStore))))))
       = (StatusSucceeded, Some (result1 StatusSucceeded), True)"
    by (metis (no_types, lifting))
  ultimately show ?thesis using a b by blast
qed

section \<open>Properties of the executor\<close>

subsection \<open>Checksums and the example jobs\<close>

text \<open>The digest printed in hexadecimal has 64 characters, whatever the command.\<close>


lemma ensureChecksum_length: "length (ensureChecksum c) = 64"
  by (cases "Sum256 c" rule: EncodeToString.cases) (simp add: ensureChecksum_def hex32_def)

text \<open>The checksum of the example job is the SHA-256 of its command.\<close>

lemma sha256_echo_hi:
  "ensureChecksum ''echo hi'' = ''56a79f3b115448072387c2480044bfa2cf8f90e4f5fddd8c943b4e051b81f80b''"
  by code_simp

lemmas validate_eval =
  JobDefinition_Validate_def CredentialBundle_Validate_def TrimSpace_def space_runes_def

lemma job1_variants_valid:
  "JobDefinition_Validate job1_tty = None" "JobDefinition_Validate job1_bad_sum = None"
  by (simp_all add: validate_eval job1_tty_def job1_bad_sum_def job1_def)

lemma job1_passes: "validateJob exec0 job1 = None" "validateJob exec0 job1_tty = None"
proof -
  have "EncodeToString (Sum256 (Command job1)) = Checksum job1"
    using sha256_echo_hi by (simp add: ensureChecksum_def job1_def)
  moreover have "Command job1_tty = Command job1" "Checksum job1_tty = Checksum job1"
    by (simp_all add: job1_tty_def)
  ultimately show "validateJob exec0 job1 = None" "validateJob exec0 job1_tty = None"
    by (simp_all add: validateJob_def exec0_def job1_valid job1_variants_valid)
qed

lemma job1_bad_sum_rejected: "validateJob exec0 job1_bad_sum = Some (ErrorString ''checksum mismatch'')"
proof -
  have "length (ensureChecksum (Command job1_bad_sum)) \<noteq> length (Checksum job1_bad_sum)"
    by (simp add: ensureChecksum_length job1_bad_sum_def)
  then have "EncodeToString (Sum256 (Command job1_bad_sum)) \<noteq> Checksum job1_bad_sum"
    by (auto simp: ensureChecksum_def)
  then show ?thesis
    by (simp add: validateJob_def exec0_def job1_variants_valid)
qed

subsection \<open>The paths of \<open>Execute\<close>\<close>

lemma fail_with_fields:
  "fail_with j started err w =
     ((\<lparr>JobID = ID j, Status = StatusFailed, StartedAt = started, FinishedAt = clock w (ticks w),
        ExitCode = (case err of ExitError st m \<Rightarrow> st | ErrorString m \<Rightarrow> - 1),
        Stdout = [], Stderr = [], Error = Error_text err, ResultMetadata = Metadata j\<rparr>, Some err),
      w\<lparr>ticks := Suc (ticks w)\<rparr>)"
  by (simp add: fail_with_def buildResult_def Now_def statusFromError_def errorString_def
      split: error.splits)

lemma newClient_clock:
  "newClient e peer creds w = (r, w') \<Longrightarrow> clock w' = clock w \<and> ticks w' = ticks w"
  by (auto simp: newClient_def log_event_def Let_def split: if_splits option.splits)

lemma newClient_events:
  "newClient e peer creds w = (r, w') \<Longrightarrow> \<exists>evs. events w' = events w @ evs"
  by (auto simp: newClient_def log_event_def Let_def split: if_splits option.splits)

text \<open>
  Claim C1. For a job whose checksum is not the lowercase hexadecimal SHA-256 of its
  command, \<^verbatim>\<open>validateJob\<close> returns an error, \<^verbatim>\<open>Execute\<close> returns that error with a
  failed result, and the log of network operations after the call is the log before it:
  nothing was dialled.
\<close>

theorem checksum_mismatch_never_dials:
  assumes "Checksum j \<noteq> ensureChecksum (Command j)"
  shows "\<exists>err. validateJob e j = Some err
           \<and> snd (fst (Execute e peer j creds w)) = Some err
           \<and> Status (fst (fst (Execute e peer j creds w))) = StatusFailed
           \<and> events (snd (Execute e peer j creds w)) = events w"
proof -
  from assms have "validateJob e j \<noteq> None"
    by (cases "JobDefinition_Validate j") (auto simp: validateJob_def ensureChecksum_def)
  then obtain err where err: "validateJob e j = Some err"
    by blast
  then have "Execute e peer j creds w = fail_with j (clock w (ticks w)) err (w\<lparr>ticks := Suc (ticks w)\<rparr>)"
    by (simp add: Execute_def Now_def)
  with err show ?thesis
    by (simp add: fail_with_fields)
qed

theorem checksum_mismatch_never_dials_witness:
  "Checksum job1_bad_sum \<noteq> ensureChecksum (Command job1_bad_sum)
   \<and> (\<exists>err. validateJob exec0 job1_bad_sum = Some err
         \<and> snd (fst (Execute exec0 peer_ok job1_bad_sum creds1 state0)) = Some err
         \<and> Status (fst (fst (Execute exec0 peer_ok job1_bad_sum creds1 state0))) = StatusFailed
         \<and> events (snd (Execute exec0 peer_ok job1_bad_sum creds1 state0)) = events state0)"
proof -
  have "length (Checksum job1_bad_sum) \<noteq> length (ensureChecksum (Command job1_bad_sum))"
    by (simp add: ensureChecksum_length job1_bad_sum_def)
  then have h: "Checksum job1_bad_sum \<noteq> ensureChecksum (Command job1_bad_sum)"
    by auto
  from checksum_mismatch_never_dials [OF h] h show ?thesis
    by blast
qed


lemma buildResult_fields:
  "buildResult j started out errout runErr w =
     (\<lparr>JobID = ID j, Status = statusFromError runErr, StartedAt = started,
       FinishedAt = clock w (ticks w),
       ExitCode = (case runErr of None \<Rightarrow> 0 | Some (ExitError st m) \<Rightarrow> st | Some (ErrorString m) \<Rightarrow> - 1),
       Stdout = out, Stderr = errout, Error = errorString runErr, ResultMetadata = Metadata j\<rparr>,
      w\<lparr>ticks := Suc (ticks w)\<rparr>)"
  by (simp add: buildResult_def Now_def)

text \<open>Every path of \<open>Execute\<close> but the failed PTY request ends in \<open>buildResult\<close>.\<close>

lemma execute_builds_result:
  assumes "\<not> pty_request_failed e peer j creds w"
  shows "\<exists>out errout runErr.
           fst (Execute e peer j creds w) =
             (\<lparr>JobID = ID j, Status = statusFromError runErr, StartedAt = clock w (ticks w),
               FinishedAt = clock w (Suc (ticks w)),
               ExitCode = (case runErr of None \<Rightarrow> 0 | Some (ExitError st m) \<Rightarrow> st
                           | Some (ErrorString m) \<Rightarrow> - 1),
               Stdout = out, Stderr = errout, Error = errorString runErr,
               ResultMetadata = Metadata j\<rparr>, runErr)
           \<and> ticks (snd (Execute e peer j creds w)) = Suc (Suc (ticks w))"
proof (cases "validateJob e j")
  case (Some err)
  then show ?thesis
    by (auto simp: Execute_def Now_def fail_with_def buildResult_fields)
next
  case None
  obtain cerr w2 where nc: "newClient e peer creds (w\<lparr>ticks := Suc (ticks w)\<rparr>) = (cerr, w2)"
    by (cases "newClient e peer creds (w\<lparr>ticks := Suc (ticks w)\<rparr>)")
  from newClient_clock [OF nc] have w2: "clock w2 = clock w" "ticks w2 = Suc (ticks w)"
    by simp_all
  show ?thesis
  proof (cases cerr)
    case (Some err)
    with None nc w2 show ?thesis
      by (auto simp: Execute_def Now_def fail_with_def buildResult_fields)
  next
    case no_cerr: None
    show ?thesis
    proof (cases "session_reply peer")
      case (Some err)
      with None nc w2 no_cerr show ?thesis
        by (auto simp: Execute_def Now_def fail_with_def buildResult_fields log_event_def)
    next
      case no_serr: None
      with assms None nc no_cerr have pty: "(if AllowTTY j then pty_reply peer else None) = None"
        by (auto simp: pty_request_failed_def Now_def)
      show ?thesis
      proof (cases "run_reply peer")
        case (CtxDone ce out errout)
        with None nc w2 no_cerr no_serr pty show ?thesis
          by (auto simp: Execute_def Now_def buildResult_fields log_event_def Let_def)
      next
        case (RunDone rerr out errout)
        with None nc w2 no_cerr no_serr pty show ?thesis
          by (auto simp: Execute_def Now_def buildResult_fields log_event_def Let_def)
      qed
    qed
  qed
qed

text \<open>
  Claim C8, as amended. On every path of \<^verbatim>\<open>Execute\<close> that builds its result with
  \<^verbatim>\<open>buildResult\<close> (every path but the failed PTY request), \<^verbatim>\<open>StartedAt\<close> is the clock
  reading taken on entry and \<^verbatim>\<open>FinishedAt\<close> is the next reading of the clock, taken when
  the result is built; the call reads the clock exactly twice. This holds in particular
  when validation fails: the two timestamps are then two successive readings, not one.
\<close>

theorem result_times_are_clock_readings:
  assumes "\<not> pty_request_failed e peer j creds w"
  shows "StartedAt (fst (fst (Execute e peer j creds w))) = clock w (ticks w)
       \<and> FinishedAt (fst (fst (Execute e peer j creds w))) = clock w (Suc (ticks w))
       \<and> ticks (snd (Execute e peer j creds w)) = Suc (Suc (ticks w))"
proof -
  from execute_builds_result [OF assms] show ?thesis
    by auto
qed

lemma not_pty_if_invalid: "validateJob e j \<noteq> None \<Longrightarrow> \<not> pty_request_failed e peer j creds w"
  by (simp add: pty_request_failed_def)

theorem result_times_are_clock_readings_witness:
  "\<not> pty_request_failed exec0 peer_ok job1_bad_sum creds1 state0
   \<and> StartedAt (fst (fst (Execute exec0 peer_ok job1_bad_sum creds1 state0))) = 1000
   \<and> FinishedAt (fst (fst (Execute exec0 peer_ok job1_bad_sum creds1 state0))) = 1001
   \<and> ticks (snd (Execute exec0 peer_ok job1_bad_sum creds1 state0)) = 2"
proof -
  have h: "\<not> pty_request_failed exec0 peer_ok job1_bad_sum creds1 state0"
    by (simp add: not_pty_if_invalid job1_bad_sum_rejected)
  from result_times_are_clock_readings [OF h] h show ?thesis
    by (simp add: state0_def)
qed

text \<open>
  Claim C8 as stated fails: with a clock that advances between the two readings, a job
  that fails validation gets a result whose \<^verbatim>\<open>StartedAt\<close> and \<^verbatim>\<open>FinishedAt\<close> differ.
\<close>

theorem validation_failure_times_differ_counterexample:
  "validateJob exec0 job1_bad_sum = Some (ErrorString ''checksum mismatch'')
   \<and> Execute exec0 peer_ok job1_bad_sum creds1 state0 =
       ((\<lparr>JobID = ''j1'', Status = StatusFailed, StartedAt = 1000, FinishedAt = 1001,
          ExitCode = - 1, Stdout = [], Stderr = [], Error = ''checksum mismatch'',
          ResultMetadata = Map.empty\<rparr>, Some (ErrorString ''checksum mismatch'')),
        state0\<lparr>ticks := 2\<rparr>)
   \<and> (1000 :: time) \<noteq> 1001"
  by (simp add: Execute_def Now_def job1_bad_sum_rejected fail_with_fields state0_def)
    (simp add: job1_bad_sum_def job1_def)

text \<open>
  The two lemmas that follow describe every result of \<^verbatim>\<open>Execute\<close>: the zero result with
  an error when the PTY request fails, and otherwise a result with the job's ID whose
  status, exit code and error text follow from the error returned with it.
\<close>

lemma execute_pty_failure:
  assumes "pty_request_failed e peer j creds w"
  shows "\<exists>err. pty_reply peer = Some err
           \<and> fst (Execute e peer j creds w) =
               (Result_zero, Some (ErrorString (''request pty: '' @ Error_text err)))"
proof -
  obtain cerr w2 where nc: "newClient e peer creds (w\<lparr>ticks := Suc (ticks w)\<rparr>) = (cerr, w2)"
    by (cases "newClient e peer creds (w\<lparr>ticks := Suc (ticks w)\<rparr>)")
  with assms show ?thesis
    by (auto simp: pty_request_failed_def Execute_def Now_def Let_def)
qed

lemma execute_result_of_error:
  assumes "\<not> pty_request_failed e peer j creds w"
  shows "JobID (fst (fst (Execute e peer j creds w))) = ID j
       \<and> (case snd (fst (Execute e peer j creds w)) of
            None \<Rightarrow>
              Status (fst (fst (Execute e peer j creds w))) = StatusSucceeded
              \<and> ExitCode (fst (fst (Execute e peer j creds w))) = 0
              \<and> Error (fst (fst (Execute e peer j creds w))) = []
          | Some err \<Rightarrow>
              Status (fst (fst (Execute e peer j creds w))) = StatusFailed
              \<and> ExitCode (fst (fst (Execute e peer j creds w))) =
                  (case err of ExitError st m \<Rightarrow> st | ErrorString m \<Rightarrow> - 1)
              \<and> Error (fst (fst (Execute e peer j creds w))) = Error_text err)"
proof -
  from execute_builds_result [OF assms] show ?thesis
    by (auto simp: statusFromError_def errorString_def split: option.splits error.splits)
qed

lemma creds1_connects:
  "newClient exec0 peer_no_pty creds1 w =
     (None, w\<lparr>events := events w @ [Dial ''h:22'', Handshake ''h:22'']\<rparr>)"
  by (simp add: newClient_def creds1_def peer_no_pty_def peer_ok_def log_event_def
      NewClientConn_def makeHostKeyCallback_def)

text \<open>
  Claim C4 fails on the code at a failed PTY request: for a valid job that asks for a
  terminal, on a host that refuses the PTY request, \<^verbatim>\<open>Execute\<close> returns a non-nil error
  together with the zero \<^verbatim>\<open>Result\<close>, whose job ID is empty (the job's is \<open>j1\<close>),
  whose status is empty (not failed) and whose error text is empty.
\<close>

theorem pty_failure_result_not_well_formed:
  "Execute exec0 peer_no_pty job1_tty creds1 state0 =
     ((Result_zero, Some (ErrorString ''request pty: ssh: pty-req failed'')),
      state0\<lparr>ticks := 1,
             events := [Dial ''h:22'', Handshake ''h:22'', NewSession, RequestPty,
                        SessionClose, ClientClose]\<rparr>)
   \<and> ID job1_tty = ''j1'' \<and> JobID Result_zero = [] \<and> Status Result_zero = []
   \<and> Error Result_zero = []"
  by (simp add: Execute_def Now_def job1_passes creds1_connects)
    (simp add: job1_tty_def job1_def peer_no_pty_def peer_ok_def log_event_def state0_def
      Result_zero_def)

text \<open>
  Claim C7 fails on the code at the same input: the error returned is neither nil nor a
  nonzero-exit error of the remote command, and the exit code of the result is 0, not -1.
\<close>

theorem pty_failure_exit_code_zero:
  "snd (fst (Execute exec0 peer_no_pty job1_tty creds1 state0)) =
     Some (ErrorString ''request pty: ssh: pty-req failed'')
   \<and> ExitCode (fst (fst (Execute exec0 peer_no_pty job1_tty creds1 state0))) = 0"
  by (simp add: Execute_def Now_def job1_passes creds1_connects)
    (simp add: job1_tty_def peer_no_pty_def peer_ok_def Result_zero_def)

section \<open>Properties of the HTTP transport\<close>

text \<open>One turn of the polling loop, by what the stop channel and the controller do.\<close>


lemma HTTP_NextJob_poll:
  "TrimSpace (BaseURL t) \<noteq> [] \<Longrightarrow> HTTP_NextJob t lib w = HTTP_poll t lib w"
  by (simp add: HTTP_NextJob_def)

lemma HTTP_poll_204:
  assumes "\<not> stop_closed w (polls w)"
    and "NewRequest lib ''GET'' (BaseURL t @ ''/v1/queue/next'') = None"
    and "next_reply w = Response 204 body"
  shows "HTTP_poll t lib w =
           HTTP_poll t lib (slept (sleepInterval t) (sent (GET (BaseURL t @ ''/v1/queue/next'')) (polled w)))"
  by (subst HTTP_poll.simps) (simp add: assms)

lemma HTTP_poll_200:
  assumes "\<not> stop_closed w (polls w)"
    and "NewRequest lib ''GET'' (BaseURL t @ ''/v1/queue/next'') = None"
    and "next_reply w = Response 200 body"
  shows "HTTP_poll t lib w =
           Some (case Unmarshal_job lib body of
                   Inl err \<Rightarrow> (None, [], Some err)
                 | Inr j \<Rightarrow> (case JobDefinition_Validate j of
                              Some err \<Rightarrow> (None, [], Some err)
                            | None \<Rightarrow> (Some j, ID j, None)),
                 sent (GET (BaseURL t @ ''/v1/queue/next'')) (polled w))"
  by (subst HTTP_poll.simps) (simp add: assms split: sum.splits option.splits)

lemma HTTP_poll_other:
  assumes "\<not> stop_closed w (polls w)"
    and "NewRequest lib ''GET'' (BaseURL t @ ''/v1/queue/next'') = None"
    and "next_reply w = Response code body" and "code \<noteq> 204" and "code \<noteq> 200"
  shows "HTTP_poll t lib w =
           Some ((None, [],
                  Some (ErrorString (''controller returned '' @ Itoa code @ '': '' @ TrimSpace body))),
                 sent (GET (BaseURL t @ ''/v1/queue/next'')) (polled w))"
  by (subst HTTP_poll.simps) (simp add: assms)

lemma HTTP_poll_stop:
  assumes "stop_closed w (polls w)"
  shows "HTTP_poll t lib w = Some ((None, [], Some (ErrorString ''polling stopped'')), polled w)"
  by (subst HTTP_poll.simps) (simp add: assms)

lemma HTTP_poll_unreachable:
  assumes "\<not> stop_closed w (polls w)"
    and "NewRequest lib ''GET'' (BaseURL t @ ''/v1/queue/next'') = None"
    and "next_reply w = DoFailed err"
  shows "HTTP_poll t lib w =
           HTTP_poll t lib (slept (sleepInterval t) (sent (GET (BaseURL t @ ''/v1/queue/next'')) (polled w)))"
  by (subst HTTP_poll.simps) (simp add: assms)

lemma HTTP_WriteResult_nil:
  assumes "HTTP_WriteResult t lib jobID res w = (None, w')"
  shows "\<exists>body payload. next_reply w = Response 202 body
            \<and> w' = sent (POST (BaseURL t @ ''/v1/jobs/'' @ jobID @ ''/results'') payload) w"
proof (cases "TrimSpace jobID = []")
  case True
  with assms show ?thesis by (simp add: HTTP_WriteResult_def)
next
  case False
  show ?thesis
  proof (cases "Marshal_result lib res")
    case (Inl err)
    with assms False show ?thesis by (simp add: HTTP_WriteResult_def)
  next
    case (Inr payload)
    show ?thesis
    proof (cases "NewRequest lib ''POST'' (BaseURL t @ ''/v1/jobs/'' @ jobID @ ''/results'')")
      case (Some err)
      with assms False Inr show ?thesis by (simp add: HTTP_WriteResult_def)
    next
      case None
      with assms False Inr show ?thesis
        by (cases "next_reply w") (auto simp: HTTP_WriteResult_def split: if_splits)
    qed
  qed
qed

lemma HTTP_WriteResult_status:
  assumes "TrimSpace jobID \<noteq> []" and "Marshal_result lib res = Inr payload"
    and "NewRequest lib ''POST'' (BaseURL t @ ''/v1/jobs/'' @ jobID @ ''/results'') = None"
    and "next_reply w = Response code body"
  shows "HTTP_WriteResult t lib jobID res w =
           (if code = 202 then None
            else Some (ErrorString (''controller rejected result ('' @ Itoa code @ ''): ''
                                    @ TrimSpace body)),
            sent (POST (BaseURL t @ ''/v1/jobs/'' @ jobID @ ''/results'') payload) w)"
  using assms by (simp add: HTTP_WriteResult_def)

text \<open>
  Claim C9. While the base URL is configured, the stop channel is open and the request
  can be built: on a 204 response \<^verbatim>\<open>NextJob\<close> sleeps one poll interval (the
  transport's \<^verbatim>\<open>PollInterval\<close>, or two seconds when that is not positive) and goes on
  polling: the call equals the call in the world after the request and that sleep. On a
  200 response it decodes the body and validates the job, and returns that job with its
  ID as receipt, or else the error of the decoder or of the validation. On any other
  status it returns the error that names the status, having sent one request.
  \<^verbatim>\<open>WriteResult\<close> returns nil only if the controller answered 202 to its one POST to
  the results endpoint of the job, and for any status other than 202 it returns the error
  that names the status after that one POST.
\<close>

theorem http_transport_status_codes:
  "(TrimSpace (BaseURL t) \<noteq> [] \<and> \<not> stop_closed w (polls w)
      \<and> NewRequest lib ''GET'' (BaseURL t @ ''/v1/queue/next'') = None \<longrightarrow>
      (\<forall>body. next_reply w = Response 204 body \<longrightarrow>
         HTTP_NextJob t lib w =
           HTTP_NextJob t lib
             (slept (if PollInterval t \<le> 0 then 2000000000 else PollInterval t)
                (sent (GET (BaseURL t @ ''/v1/queue/next'')) (polled w))))
      \<and> (\<forall>body. next_reply w = Response 200 body \<longrightarrow>
           HTTP_NextJob t lib w =
             Some (case Unmarshal_job lib body of
                     Inl err \<Rightarrow> (None, [], Some err)
                   | Inr j \<Rightarrow> (case JobDefinition_Validate j of
                                Some err \<Rightarrow> (None, [], Some err)
                              | None \<Rightarrow> (Some j, ID j, None)),
                   sent (GET (BaseURL t @ ''/v1/queue/next'')) (polled w)))
      \<and> (\<forall>code body. next_reply w = Response code body \<and> code \<noteq> 204 \<and> code \<noteq> 200 \<longrightarrow>
           HTTP_NextJob t lib w =
             Some ((None, [],
                    Some (ErrorString (''controller returned '' @ Itoa code @ '': '' @ TrimSpace body))),
                   sent (GET (BaseURL t @ ''/v1/queue/next'')) (polled w))))
   \<and> (\<forall>w'. HTTP_WriteResult t lib jobID res w = (None, w') \<longrightarrow>
         (\<exists>body payload. next_reply w = Response 202 body
            \<and> w' = sent (POST (BaseURL t @ ''/v1/jobs/'' @ jobID @ ''/results'') payload) w))
   \<and> (\<forall>code body payload. TrimSpace jobID \<noteq> [] \<and> Marshal_result lib res = Inr payload
           \<and> NewRequest lib ''POST'' (BaseURL t @ ''/v1/jobs/'' @ jobID @ ''/results'') = None
           \<and> next_reply w = Response code body \<longrightarrow>
         HTTP_WriteResult t lib jobID res w =
           (if code = 202 then None
            else Some (ErrorString (''controller rejected result ('' @ Itoa code @ ''): ''
                                    @ TrimSpace body)),
            sent (POST (BaseURL t @ ''/v1/jobs/'' @ jobID @ ''/results'') payload) w))"
proof (intro conjI impI allI)
  fix body
  assume "TrimSpace (BaseURL t) \<noteq> [] \<and> \<not> stop_closed w (polls w)
      \<and> NewRequest lib ''GET'' (BaseURL t @ ''/v1/queue/next'') = None"
    and "next_reply w = Response 204 body"
  then have "HTTP_NextJob t lib w =
           HTTP_NextJob t lib
             (slept (sleepInterval t) (sent (GET (BaseURL t @ ''/v1/queue/next'')) (polled w)))"
    by (simp add: HTTP_NextJob_poll HTTP_poll_204)
  then show "HTTP_NextJob t lib w =
           HTTP_NextJob t lib
             (slept (if PollInterval t \<le> 0 then 2000000000 else PollInterval t)
                (sent (GET (BaseURL t @ ''/v1/queue/next'')) (polled w)))"
    by (simp add: sleepInterval_def)
next
  fix body
  assume "TrimSpace (BaseURL t) \<noteq> [] \<and> \<not> stop_closed w (polls w)
      \<and> NewRequest lib ''GET'' (BaseURL t @ ''/v1/queue/next'') = None"
    and "next_reply w = Response 200 body"
  then show "HTTP_NextJob t lib w =
             Some (case Unmarshal_job lib body of
                     Inl err \<Rightarrow> (None, [], Some err)
                   | Inr j \<Rightarrow> (case JobDefinition_Validate j of
                                Some err \<Rightarrow> (None, [], Some err)
                              | None \<Rightarrow> (Some j, ID j, None)),
                   sent (GET (BaseURL t @ ''/v1/queue/next'')) (polled w))"
    by (simp add: HTTP_NextJob_poll HTTP_poll_200)
next
  fix code body
  assume "TrimSpace (BaseURL t) \<noteq> [] \<and> \<not> stop_closed w (polls w)
      \<and> NewRequest lib ''GET'' (BaseURL t @ ''/v1/queue/next'') = None"
    and "next_reply w = Response code body \<and> code \<noteq> 204 \<and> code \<noteq> 200"
  then show "HTTP_NextJob t lib w =
             Some ((None, [],
                    Some (ErrorString (''controller returned '' @ Itoa code @ '': '' @ TrimSpace body))),
                   sent (GET (BaseURL t @ ''/v1/queue/next'')) (polled w))"
    by (simp add: HTTP_NextJob_poll HTTP_poll_other)
next
  fix w'
  assume "HTTP_WriteResult t lib jobID res w = (None, w')"
  then show "\<exists>body payload. next_reply w = Response 202 body
            \<and> w' = sent (POST (BaseURL t @ ''/v1/jobs/'' @ jobID @ ''/results'') payload) w"
    by (rule HTTP_WriteResult_nil)
next
  fix code body payload
  assume "TrimSpace jobID \<noteq> [] \<and> Marshal_result lib res = Inr payload
           \<and> NewRequest lib ''POST'' (BaseURL t @ ''/v1/jobs/'' @ jobID @ ''/results'') = None
           \<and> next_reply w = Response code body"
  then show "HTTP_WriteResult t lib jobID res w =
           (if code = 202 then None
            else Some (ErrorString (''controller rejected result ('' @ Itoa code @ ''): ''
                                    @ TrimSpace body)),
            sent (POST (BaseURL t @ ''/v1/jobs/'' @ jobID @ ''/results'') payload) w)"
    by (simp add: HTTP_WriteResult_status)
qed


lemma Itoa_500: "Itoa 500 = ''500''"
  by (simp add: Itoa_def)

lemma http1_base: "TrimSpace (BaseURL http1) \<noteq> []" "TrimSpace (BaseURL http2) \<noteq> []"
  by (simp_all add: http1_def http2_def TrimSpace_def space_runes_def)

lemma TrimSpace_examples: "TrimSpace '' boom '' = ''boom''" "TrimSpace ''j1'' = ''j1''" "TrimSpace ''no'' = ''no''"
  by (simp_all add: TrimSpace_def space_runes_def)

lemmas http_eval =
  controller_def next_reply_def polled_def sent_def slept_def http1_def http2_def lib1_def

theorem http_transport_status_codes_witness:
  "HTTP_NextJob http1 lib1 (controller [Response 204 [], Response 200 ''{job1}'']) =
     Some ((Some job1, ''j1'', None),
           (controller [Response 204 [], Response 200 ''{job1}''])
             \<lparr>polls := 2,
              requests := [GET ''http://c:8080/v1/queue/next'', GET ''http://c:8080/v1/queue/next''],
              sleeps := [2000000000]\<rparr>)
   \<and> PollInterval http2 = 7000000000
   \<and> HTTP_NextJob http2 lib1 (controller [Response 204 [], Response 200 ''{job1}'']) =
     Some ((Some job1, ''j1'', None),
           (controller [Response 204 [], Response 200 ''{job1}''])
             \<lparr>polls := 2,
              requests := [GET ''http://c:8080/v1/queue/next'', GET ''http://c:8080/v1/queue/next''],
              sleeps := [7000000000]\<rparr>)
   \<and> HTTP_NextJob http1 lib1 (controller [Response 500 '' boom '']) =
     Some ((None, [], Some (ErrorString ''controller returned 500: boom'')),
           (controller [Response 500 '' boom ''])
             \<lparr>polls := 1, requests := [GET ''http://c:8080/v1/queue/next'']\<rparr>)
   \<and> HTTP_WriteResult http1 lib1 ''j1'' (result1 StatusSucceeded) (controller [Response 202 []]) =
     (None, (controller [Response 202 []])
              \<lparr>requests := [POST ''http://c:8080/v1/jobs/j1/results'' ''{result}'']\<rparr>)
   \<and> HTTP_WriteResult http1 lib1 ''j1'' (result1 StatusSucceeded) (controller [Response 500 ''no'']) =
     (Some (ErrorString ''controller rejected result (500): no''),
      (controller [Response 500 ''no''])
        \<lparr>requests := [POST ''http://c:8080/v1/jobs/j1/results'' ''{result}'']\<rparr>)"
proof -
  let ?w0 = "controller [Response 204 [], Response 200 ''{job1}'']"
  let ?w1 = "slept 2000000000 (sent (GET (BaseURL http1 @ ''/v1/queue/next'')) (polled ?w0))"
  let ?w2 = "slept 7000000000 (sent (GET (BaseURL http2 @ ''/v1/queue/next'')) (polled ?w0))"
  have a: "HTTP_NextJob http1 lib1 ?w0 = HTTP_NextJob http1 lib1 ?w1"
    using http_transport_status_codes [where t = http1 and lib = lib1 and w = ?w0] http1_base
    by (simp add: http_eval)
  have b: "HTTP_NextJob http1 lib1 ?w1 =
      Some ((Some job1, ID job1, None), sent (GET (BaseURL http1 @ ''/v1/queue/next'')) (polled ?w1))"
    using http_transport_status_codes [where t = http1 and lib = lib1 and w = ?w1] http1_base job1_valid
    by (simp add: http_eval)
  have a2: "HTTP_NextJob http2 lib1 ?w0 = HTTP_NextJob http2 lib1 ?w2"
    using http_transport_status_codes [where t = http2 and lib = lib1 and w = ?w0] http1_base
    by (simp add: http_eval)
  have b2: "HTTP_NextJob http2 lib1 ?w2 =
      Some ((Some job1, ID job1, None), sent (GET (BaseURL http2 @ ''/v1/queue/next'')) (polled ?w2))"
    using http_transport_status_codes [where t = http2 and lib = lib1 and w = ?w2] http1_base job1_valid
    by (simp add: http_eval)
  have c: "HTTP_NextJob http1 lib1 (controller [Response 500 '' boom '']) =
     Some ((None, [], Some (ErrorString ''controller returned 500: boom'')),
           (controller [Response 500 '' boom ''])
             \<lparr>polls := 1, requests := [GET ''http://c:8080/v1/queue/next'']\<rparr>)"
    using http_transport_status_codes [where t = http1 and lib = lib1
        and w = "controller [Response 500 '' boom '']"] http1_base
    by (simp add: http_eval Itoa_500 TrimSpace_examples)
  have d: "HTTP_WriteResult http1 lib1 ''j1'' (result1 StatusSucceeded) (controller [Response 202 []]) =
     (None, (controller [Response 202 []])
              \<lparr>requests := [POST ''http://c:8080/v1/jobs/j1/results'' ''{result}'']\<rparr>)"
    using http_transport_status_codes [where t = http1 and lib = lib1 and jobID = "''j1''"
        and res = "result1 StatusSucceeded" and w = "controller [Response 202 []]"]
    by (simp add: http_eval TrimSpace_examples)
  have e: "HTTP_WriteResult http1 lib1 ''j1'' (result1 StatusSucceeded) (controller [Response 500 ''no'']) =
     (Some (ErrorString ''controller rejected result (500): no''),
      (controller [Response 500 ''no''])
        \<lparr>requests := [POST ''http://c:8080/v1/jobs/j1/results'' ''{result}'']\<rparr>)"
    using http_transport_status_codes [where t = http1 and lib = lib1 and jobID = "''j1''"
        and res = "result1 StatusSucceeded" and w = "controller [Response 500 ''no'']"]
    by (simp add: http_eval Itoa_500 TrimSpace_examples)
  from a b have f: "HTTP_NextJob http1 lib1 ?w0 =
     Some ((Some job1, ''j1'', None),
           ?w0\<lparr>polls := 2,
              requests := [GET ''http://c:8080/v1/queue/next'', GET ''http://c:8080/v1/queue/next''],
              sleeps := [2000000000]\<rparr>)"
    by (simp add: http_eval job1_ID)
  from a2 b2 have g: "HTTP_NextJob http2 lib1 ?w0 =
     Some ((Some job1, ''j1'', None),
           ?w0\<lparr>polls := 2,
              requests := [GET ''http://c:8080/v1/queue/next'', GET ''http://c:8080/v1/queue/next''],
              sleeps := [7000000000]\<rparr>)"
    by (simp add: http_eval job1_ID)
  have h: "PollInterval http2 = 7000000000"
    by (simp add: http2_def)
  from c d e f g h show ?thesis
    by simp
qed

section \<open>Properties of the shared-directory transport\<close>


lemma TrimSuffix_append: "TrimSuffix (xs @ ys) ys = xs"
  by (simp add: TrimSuffix_def suffix_def)

lemma Ext_result_json: "Ext (p @ ''.result.json'') = ''.json''"
  by (simp add: Ext_def)

lemma Ext_result: "Ext (p @ ''.result'') = ''.result''"
  by (simp add: Ext_def)

lemma result_path_not_job_file: "\<not> is_job_file (p @ ''.result.json'')"
proof -
  have "TrimSuffix (p @ ''.result.json'') ''.json'' = p @ ''.result''"
    using TrimSuffix_append [of "p @ ''.result''" "''.json''"] by simp
  then show ?thesis
    by (simp add: is_job_file_def Ext_result_json Ext_result)
qed

lemma visit_selects:
  "visit entry sel = (ctl, sel') \<Longrightarrow>
     (ctl = SkipAll \<and> sel' = fst entry \<and> is_job_file sel') \<or> (ctl \<noteq> SkipAll \<and> sel' = sel)"
  by (auto simp: visit_def is_job_file_def split: prod.splits option.splits if_splits)

lemma WalkDir_selects:
  "WalkDir es sel = (err, sel') \<Longrightarrow> sel' = sel \<or> (is_job_file sel' \<and> sel' \<in> fst ` set es)"
proof (induction es arbitrary: sel)
  case Nil
  then show ?case by simp
next
  case (Cons entry rest)
  obtain ctl s1 where v: "visit entry sel = (ctl, s1)"
    by (cases "visit entry sel")
  from visit_selects [OF v] Cons show ?case
    by (cases ctl) (auto simp: v)
qed

lemma visit_result_file: "visit (p @ ''.result.json'', False, None) sel = (Continue, sel)"
  using result_path_not_job_file [of p]
  by (auto simp: visit_def is_job_file_def)

lemma WalkDir_skips_result_file:
  "WalkDir (xs @ (p @ ''.result.json'', False, None) # ys) sel = WalkDir (xs @ ys) sel"
proof (induction xs arbitrary: sel)
  case Nil
  show ?case by (simp add: visit_result_file)
next
  case (Cons x xs)
  then show ?case
    by (simp split: prod.splits walk_ctl.splits)
qed

text \<open>
  Claim C10. The walk of the inbox selects a path only if its extension is \<open>.json\<close> and
  the extension of what precedes it is \<open>.job\<close>. The file that \<^verbatim>\<open>WriteResult\<close> writes
  for a job path is that path followed by \<open>.result.json\<close>; its extension is \<open>.json\<close>
  and the extension before it is \<open>.result\<close>, whatever the job path. So no walk and no
  scan ever selects such a path, and a walk that meets a result file goes on as if the
  file were not there.
\<close>

theorem result_file_never_selected:
  "(\<forall>err sel. WalkDir es [] = (err, sel) \<and> sel \<noteq> [] \<longrightarrow>
       Ext sel = ''.json'' \<and> Ext (TrimSuffix sel (Ext sel)) = ''.job'')
   \<and> (\<forall>err path payload. FS_WriteResult t lib jobPath res = (err, Some (path, payload)) \<longrightarrow>
         path = jobPath @ ''.result.json'')
   \<and> Ext (jobPath @ ''.result.json'') = ''.json''
   \<and> Ext (TrimSuffix (jobPath @ ''.result.json'') (Ext (jobPath @ ''.result.json''))) = ''.result''
   \<and> snd (WalkDir es []) \<noteq> jobPath @ ''.result.json''
   \<and> fst (scanInbox t lib) \<noteq> jobPath @ ''.result.json''
   \<and> WalkDir (xs @ (jobPath @ ''.result.json'', False, None) # ys) sel = WalkDir (xs @ ys) sel"
proof -
  have trim: "TrimSuffix (jobPath @ ''.result.json'') ''.json'' = jobPath @ ''.result''"
    using TrimSuffix_append [of "jobPath @ ''.result''" "''.json''"] by simp
  have walk: "snd (WalkDir es' []) \<noteq> jobPath @ ''.result.json''" for es'
    using WalkDir_selects [of es' "[]" "fst (WalkDir es' [])" "snd (WalkDir es' [])"]
      result_path_not_job_file [of jobPath]
    by auto
  have scan: "fst (scanInbox t lib) = [] \<or> fst (scanInbox t lib) = snd (WalkDir (walk lib (InboxDir t)) [])"
    by (auto simp: scanInbox_def split: prod.splits sum.splits option.splits)
  have c6: "fst (scanInbox t lib) \<noteq> jobPath @ ''.result.json''"
    using scan walk [of "walk lib (InboxDir t)"] by auto
  have c1: "\<forall>err sel. WalkDir es [] = (err, sel) \<and> sel \<noteq> [] \<longrightarrow>
       Ext sel = ''.json'' \<and> Ext (TrimSuffix sel (Ext sel)) = ''.job''"
    using WalkDir_selects [of es "[]"] by (auto simp: is_job_file_def)
  have c2: "\<forall>err path payload. FS_WriteResult t lib jobPath res = (err, Some (path, payload)) \<longrightarrow>
         path = jobPath @ ''.result.json''"
    by (auto simp: FS_WriteResult_def split: sum.splits)
  have c3: "Ext (jobPath @ ''.result.json'') = ''.json''"
    by (rule Ext_result_json)
  have c4: "Ext (TrimSuffix (jobPath @ ''.result.json'') (Ext (jobPath @ ''.result.json''))) = ''.result''"
    by (simp only: c3 trim Ext_result)
  have c5: "snd (WalkDir es []) \<noteq> jobPath @ ''.result.json''"
    by (rule walk)
  have c7: "WalkDir (xs @ (jobPath @ ''.result.json'', False, None) # ys) sel = WalkDir (xs @ ys) sel"
    by (rule WalkDir_skips_result_file)
  show ?thesis
    by (intro conjI) (fact c1 c2 c3 c4 c5 c6 c7)+
qed


lemma inbox1_scan: "scanInbox fs1 inbox1 = (''/in/b.job.json'', Some job1, None)"
  by (simp add: scanInbox_def fs1_def inbox1_def visit_def Ext_def TrimSuffix_def suffix_def job1_valid)

theorem result_file_never_selected_witness:
  "WalkDir (walk inbox1 ''/in'') [] = (None, ''/in/b.job.json'') \<and> ''/in/b.job.json'' \<noteq> []
   \<and> Ext ''/in/b.job.json'' = ''.json''
   \<and> Ext (TrimSuffix ''/in/b.job.json'' (Ext ''/in/b.job.json'')) = ''.job''
   \<and> FS_WriteResult fs1 inbox1 ''/in/b.job.json'' (result1 StatusSucceeded) =
       (None, Some (''/in/b.job.json'' @ ''.result.json'', ''{result}''))
   \<and> fst (scanInbox fs1 inbox1) \<noteq> ''/in/b.job.json'' @ ''.result.json''"
proof -
  have a: "WalkDir (walk inbox1 ''/in'') [] = (None, ''/in/b.job.json'')"
    by (simp add: inbox1_def visit_def Ext_def TrimSuffix_def suffix_def)
  have b: "FS_WriteResult fs1 inbox1 ''/in/b.job.json'' (result1 StatusSucceeded) =
       (None, Some (''/in/b.job.json'' @ ''.result.json'', ''{result}''))"
    by (simp add: FS_WriteResult_def inbox1_def)
  from result_file_never_selected [of "walk inbox1 ''/in''" fs1 inbox1 "''/in/b.job.json''" "result1 StatusSucceeded"]
    a b show ?thesis
    by blast
qed

end
